theory Spec2Isabelle
  imports Complex_Main "HOL-Library.Log_Nat"
begin

section \<open>Bulk DynamoDB templated item loader (src/main.py)\<close>

text \<open>
  The script reads a JSON template, substitutes four variables into it once per
  iteration, decodes the result and either hands the item to the batch writer of the
  table or prints it. Everything the script does beyond computing values is explicit
  here: the console is a list of printed lines, the batch writer is a log of the calls made
  on it, the random identifiers and the clock are oracles read through call counters,
  and every exception of the source is a value of type \<open>error\<close>.

  Python strings are modelled as \<open>string\<close>; a character stands for the code point of
  the same number, so the model covers texts whose code points are below 256.
\<close>

subsection \<open>Values and errors\<close>

datatype error =
    KeyError string
  | ValueError string
  | JSONDecodeError
  | OverflowError
  | OSError string
  | ClientError string

text \<open>What \<open>json.loads\<close> returns: dict, list, str, int, float, bool or None. A float is kept
  as the literal it was read from; a str is its list of code points.\<close>

datatype json =
    JNull
  | JBool bool
  | JInt int
  | JFloat string
  | JString "nat list"
  | JArray "json list"
  | JObject "(nat list \<times> json) list"

text \<open>The values of the substitution dictionary: \<open>str\<close> or \<open>int\<close>.\<close>

datatype pyval = PStr string | PInt int

subsection \<open>\<open>str\<close> of an integer\<close>

definition digit_char :: "nat \<Rightarrow> char" where
  "digit_char d = char_of (48 + d)"

function str_nat :: "nat \<Rightarrow> string" where
  "str_nat n = (if n < 10 then [digit_char n] else str_nat (n div 10) @ [digit_char (n mod 10)])"
  by pat_completeness auto
termination
  by (relation "measure (\<lambda>n. n)") auto

definition str_int :: "int \<Rightarrow> string" where
  "str_int i = (if i < 0 then CHR ''-'' # str_nat (nat (- i)) else str_nat (nat i))"

fun py_str :: "pyval \<Rightarrow> string" where
  "py_str (PStr s) = s"
| "py_str (PInt i) = str_int i"

subsection \<open>\<open>int\<close> of a string\<close>

text \<open>
  \<open>int(s)\<close> in base ten: surrounding whitespace is dropped, one sign is allowed, the digits
  may be grouped by single underscores, leading zeros are allowed. Anything else raises
  ValueError, and so does a literal with more digits than the interpreter's limit
  (\<open>sys.int_max_str_digits\<close>, 4300 unless configured; 0 switches the limit off).
\<close>

definition is_digit :: "char \<Rightarrow> bool" where
  "is_digit c = (48 \<le> (of_char c :: nat) \<and> (of_char c :: nat) \<le> 57)"

definition is_int_space :: "char \<Rightarrow> bool" where
  "is_int_space c = ((of_char c :: nat) \<in> {9, 10, 11, 12, 13, 32, 133, 160})"

definition digit_val :: "char \<Rightarrow> nat" where
  "digit_val c = of_char c - 48"

fun digits_ok :: "string \<Rightarrow> bool" where
  "digits_ok [] = False"
| "digits_ok [c] = is_digit c"
| "digits_ok (c # d # cs) =
     (is_digit c \<and> (if d = CHR ''_'' then digits_ok cs else digits_ok (d # cs)))"

definition digits_value :: "string \<Rightarrow> nat" where
  "digits_value ds = foldl (\<lambda>acc c. 10 * acc + digit_val c) 0 ds"

definition py_int :: "nat \<Rightarrow> string \<Rightarrow> error + int" where
  "py_int max_digits s =
     (let t = rev (dropWhile is_int_space (rev (dropWhile is_int_space s)));
          neg = (t \<noteq> [] \<and> hd t = CHR ''-'');
          body = (if t \<noteq> [] \<and> (hd t = CHR ''-'' \<or> hd t = CHR ''+'') then tl t else t);
          ds = filter (\<lambda>c. c \<noteq> CHR ''_'') body
      in if \<not> digits_ok body then Inl (ValueError ''invalid literal for int() with base 10'')
         else if 0 < max_digits \<and> max_digits < length ds
           then Inl (ValueError ''Exceeds the limit for integer string conversion'')
         else Inr (if neg then - int (digits_value ds) else int (digits_value ds)))"

subsection \<open>\<open>string.Template.substitute\<close>\<close>

text \<open>
  The template pattern is \<open>$\<close> followed by one of: a second \<open>$\<close> (escape), an identifier
  \<open>[_a-z][_a-z0-9]*\<close> matched ignoring case (named), such an identifier in braces
  (braced), or nothing (invalid). \<open>re.sub\<close> visits the matches from left to right and
  copies the text between them.
\<close>

definition is_id_start :: "char \<Rightarrow> bool" where
  "is_id_start c =
     (c = CHR ''_'' \<or> (65 \<le> (of_char c :: nat) \<and> (of_char c :: nat) \<le> 90)
      \<or> (97 \<le> (of_char c :: nat) \<and> (of_char c :: nat) \<le> 122))"

definition is_id_char :: "char \<Rightarrow> bool" where
  "is_id_char c = (is_id_start c \<or> is_digit c)"

datatype token = Lit char | Escaped | Named string | Braced string | Invalid

function scan :: "string \<Rightarrow> token list" where
  "scan [] = []"
| "scan (c # cs) =
     (if c \<noteq> CHR ''$'' then Lit c # scan cs
      else case cs of
        [] \<Rightarrow> [Invalid]
      | d # ds \<Rightarrow>
          if d = CHR ''$'' then Escaped # scan ds
          else if is_id_start d
            then Named (takeWhile is_id_char cs) # scan (dropWhile is_id_char cs)
          else if d = CHR ''{'' \<and> ds \<noteq> [] \<and> is_id_start (hd ds)
                  \<and> dropWhile is_id_char ds \<noteq> []
                  \<and> hd (dropWhile is_id_char ds) = CHR ''}''
            then Braced (takeWhile is_id_char ds) # scan (tl (dropWhile is_id_char ds))
          else Invalid # scan cs)"
  by pat_completeness auto
termination
proof (relation "measure length", goal_cases)
  case 1
  show ?case by simp
next
  case (2 c cs)
  show ?case by simp
next
  case (3 c cs d ds)
  then show ?case by simp
next
  case (4 c cs d ds)
  have "length (dropWhile is_id_char cs) \<le> length cs"
    by (rule length_dropWhile_le)
  then show ?case by simp
next
  case (5 c cs d ds)
  have "length (tl (dropWhile is_id_char ds)) \<le> length ds"
    using length_dropWhile_le [of is_id_char ds] by simp
  with 5 show ?case by simp
next
  case (6 c cs d ds)
  then show ?case by simp
qed

fun convert :: "(string \<rightharpoonup> pyval) \<Rightarrow> token \<Rightarrow> error + string" where
  "convert m (Lit c) = Inr [c]"
| "convert m Escaped = Inr ''$''"
| "convert m (Named n) = (case m n of None \<Rightarrow> Inl (KeyError n) | Some v \<Rightarrow> Inr (py_str v))"
| "convert m (Braced n) = (case m n of None \<Rightarrow> Inl (KeyError n) | Some v \<Rightarrow> Inr (py_str v))"
| "convert m Invalid = Inl (ValueError ''Invalid placeholder in string'')"

fun substitute_tokens :: "(string \<rightharpoonup> pyval) \<Rightarrow> token list \<Rightarrow> error + string" where
  "substitute_tokens m [] = Inr []"
| "substitute_tokens m (t # ts) =
     (case convert m t of
        Inl e \<Rightarrow> Inl e
      | Inr s \<Rightarrow> (case substitute_tokens m ts of Inl e \<Rightarrow> Inl e | Inr r \<Rightarrow> Inr (s @ r)))"

definition substitute :: "(string \<rightharpoonup> pyval) \<Rightarrow> string \<Rightarrow> error + string" where
  "substitute m template = substitute_tokens m (scan template)"

subsection \<open>\<open>json.loads\<close>\<close>

text \<open>
  The decoder of the standard library accepts the JSON grammar, with blanks, tabs, line
  feeds and carriage returns between tokens, and the extra constants NaN, Infinity and
  -Infinity. Every rejection is a JSONDecodeError. The model reads the tokens first and
  then builds the value with a stack of the containers that are still open. The
  interpreter's recursion limit and its limit on the digits of an integer are outside the
  model.
\<close>

definition is_ws :: "char \<Rightarrow> bool" where
  "is_ws c = ((of_char c :: nat) \<in> {32, 9, 10, 13})"

definition hex_val :: "char \<Rightarrow> nat option" where
  "hex_val c =
     (let k = (of_char c :: nat)
      in if 48 \<le> k \<and> k \<le> 57 then Some (k - 48)
         else if 65 \<le> k \<and> k \<le> 70 then Some (k - 55)
         else if 97 \<le> k \<and> k \<le> 102 then Some (k - 87)
         else None)"

text \<open>The four hexadecimal digits of a \<open>\uXXXX\<close> escape.\<close>

definition hex4 :: "string \<Rightarrow> nat option" where
  "hex4 cs =
     (case map hex_val (take 4 cs) of
        [Some a, Some b, Some c, Some d] \<Rightarrow> Some (((a * 16 + b) * 16 + c) * 16 + d)
      | _ \<Rightarrow> None)"

definition escape_char :: "char \<Rightarrow> nat option" where
  "escape_char e =
     (if e = CHR 0x22 then Some 0x22
      else if e = CHR 0x5C then Some 0x5C
      else if e = CHR ''/'' then Some 0x2F
      else if e = CHR ''b'' then Some 8
      else if e = CHR ''f'' then Some 12
      else if e = CHR ''n'' then Some 10
      else if e = CHR ''r'' then Some 13
      else if e = CHR ''t'' then Some 9
      else None)"

definition cons_code :: "nat \<Rightarrow> nat \<Rightarrow> (nat list \<times> nat) option \<Rightarrow> (nat list \<times> nat) option" where
  "cons_code k n r = (case r of None \<Rightarrow> None | Some (ks, m) \<Rightarrow> Some (k # ks, n + m))"

text \<open>The text after an opening quote: the code points of the string and the number of
  characters read, closing quote included. Control characters are rejected, a high
  surrogate followed by an escaped low surrogate is joined with it.\<close>

function scanstring :: "string \<Rightarrow> (nat list \<times> nat) option" where
  "scanstring [] = None"
| "scanstring (c # cs) =
     (if c = CHR 0x22 then Some ([], 1)
      else if c = CHR 0x5C then
        (case cs of
           [] \<Rightarrow> None
         | e # es \<Rightarrow>
            if e = CHR ''u'' then
              (case hex4 es of
                 None \<Rightarrow> None
               | Some u \<Rightarrow>
                  if 0xD800 \<le> u \<and> u \<le> 0xDBFF \<and> take 2 (drop 4 es) = [CHR 0x5C, CHR ''u''] then
                    (case hex4 (drop 6 es) of
                       None \<Rightarrow> None
                     | Some u2 \<Rightarrow>
                        if 0xDC00 \<le> u2 \<and> u2 \<le> 0xDFFF
                        then cons_code (0x10000 + (u - 0xD800) * 1024 + (u2 - 0xDC00)) 12
                               (scanstring (drop 10 es))
                        else cons_code u 6 (scanstring (drop 4 es)))
                  else cons_code u 6 (scanstring (drop 4 es)))
            else (case escape_char e of
                    None \<Rightarrow> None
                  | Some k \<Rightarrow> cons_code k 2 (scanstring es)))
      else if (of_char c :: nat) < 32 then None
      else cons_code (of_char c) 1 (scanstring cs))"
  by pat_completeness auto
termination
  by (relation "measure length") auto

text \<open>The number pattern \<open>(-?(?:0|[1-9][0-9]*))(\.[0-9]+)?([eE][-+]?[0-9]+)?\<close>: the value
  and the number of characters matched. Without fraction and exponent it is an int.\<close>

definition match_frac :: "string \<Rightarrow> string" where
  "match_frac cs =
     (case cs of
        d # f # fs \<Rightarrow> if d = CHR ''.'' \<and> is_digit f then d # takeWhile is_digit (f # fs) else []
      | _ \<Rightarrow> [])"

definition match_exp :: "string \<Rightarrow> string" where
  "match_exp cs =
     (case cs of
        [] \<Rightarrow> []
      | e # es \<Rightarrow>
          if e = CHR ''e'' \<or> e = CHR ''E'' then
            (let sign = (if es \<noteq> [] \<and> (hd es = CHR ''+'' \<or> hd es = CHR ''-'') then [hd es] else []);
                 ds = takeWhile is_digit (drop (length sign) es)
             in if ds = [] then [] else e # sign @ ds)
          else [])"

definition match_number :: "string \<Rightarrow> (json \<times> nat) option" where
  "match_number cs =
     (let sign = (if cs \<noteq> [] \<and> hd cs = CHR ''-'' then ''-'' else []);
          r0 = drop (length sign) cs
      in case r0 of
           [] \<Rightarrow> None
         | d # ds \<Rightarrow>
            if \<not> is_digit d then None
            else
              (let ipart = (if d = CHR ''0'' then [d] else d # takeWhile is_digit ds);
                   frac = match_frac (drop (length ipart) r0);
                   ex = match_exp (drop (length ipart + length frac) r0);
                   n = length sign + length ipart + length frac + length ex
               in if frac = [] \<and> ex = []
                  then Some (JInt (if sign = [] then int (digits_value ipart)
                                   else - int (digits_value ipart)), n)
                  else Some (JFloat (sign @ ipart @ frac @ ex), n)))"

datatype jtoken = TLBrace | TRBrace | TLBracket | TRBracket | TColon | TComma | TValue json

definition starts_with :: "string \<Rightarrow> string \<Rightarrow> bool" where
  "starts_with p cs = (take (length p) cs = p)"

text \<open>The token that starts the text, and its length.\<close>

definition token_at :: "string \<Rightarrow> (jtoken \<times> nat) option" where
  "token_at cs =
     (if starts_with [CHR 0x22] cs then
        (case scanstring (tl cs) of
           None \<Rightarrow> None
         | Some (ks, n) \<Rightarrow> Some (TValue (JString ks), Suc n))
      else if starts_with ''{'' cs then Some (TLBrace, 1)
      else if starts_with ''}'' cs then Some (TRBrace, 1)
      else if starts_with ''['' cs then Some (TLBracket, 1)
      else if starts_with '']'' cs then Some (TRBracket, 1)
      else if starts_with '':'' cs then Some (TColon, 1)
      else if starts_with '','' cs then Some (TComma, 1)
      else if starts_with ''null'' cs then Some (TValue JNull, 4)
      else if starts_with ''true'' cs then Some (TValue (JBool True), 4)
      else if starts_with ''false'' cs then Some (TValue (JBool False), 5)
      else case match_number cs of
             Some (v, n) \<Rightarrow> Some (TValue v, n)
           | None \<Rightarrow>
              if starts_with ''NaN'' cs then Some (TValue (JFloat ''NaN''), 3)
              else if starts_with ''Infinity'' cs then Some (TValue (JFloat ''Infinity''), 8)
              else if starts_with ''-Infinity'' cs then Some (TValue (JFloat ''-Infinity''), 9)
              else None)"

text \<open>The tokens of a text; the first argument counts the characters of the current
  token that are still to be passed over.\<close>

fun lex :: "nat \<Rightarrow> string \<Rightarrow> jtoken list option" where
  "lex k [] = Some []"
| "lex (Suc k) (c # cs) = lex k cs"
| "lex 0 (c # cs) =
     (if is_ws c then lex 0 cs
      else case token_at (c # cs) of
             None \<Rightarrow> None
           | Some (t, n) \<Rightarrow> map_option (Cons t) (lex (n - 1) cs))"

text \<open>A dict keeps the place of a key that is set again and takes the new value.\<close>

fun dict_set :: "nat list \<Rightarrow> json \<Rightarrow> (nat list \<times> json) list \<Rightarrow> (nat list \<times> json) list" where
  "dict_set k v [] = [(k, v)]"
| "dict_set k v (p # ps) = (if fst p = k then (k, v) # ps else p # dict_set k v ps)"

datatype frame = FArray "json list" | FObject "(nat list \<times> json) list" "nat list option"

datatype mode = MValue | MValueOrEnd | MKeyOrEnd | MKey | MColon | MAfter | MDone json

text \<open>A finished value goes to the innermost open container, or is the result.\<close>

fun deliver :: "json \<Rightarrow> frame list \<Rightarrow> (mode \<times> frame list) option" where
  "deliver v [] = Some (MDone v, [])"
| "deliver v (FArray vs # st) = Some (MAfter, FArray (vs @ [v]) # st)"
| "deliver v (FObject ps (Some k) # st) = Some (MAfter, FObject (dict_set k v ps) None # st)"
| "deliver v (FObject ps None # st) = None"

fun begin_value :: "jtoken \<Rightarrow> frame list \<Rightarrow> (mode \<times> frame list) option" where
  "begin_value (TValue v) st = deliver v st"
| "begin_value TLBracket st = Some (MValueOrEnd, FArray [] # st)"
| "begin_value TLBrace st = Some (MKeyOrEnd, FObject [] None # st)"
| "begin_value _ st = None"

fun begin_key :: "jtoken \<Rightarrow> frame list \<Rightarrow> (mode \<times> frame list) option" where
  "begin_key (TValue (JString k)) (FObject ps None # st) = Some (MColon, FObject ps (Some k) # st)"
| "begin_key _ _ = None"

fun close_frame :: "jtoken \<Rightarrow> frame list \<Rightarrow> (mode \<times> frame list) option" where
  "close_frame TRBracket (FArray vs # st) = deliver (JArray vs) st"
| "close_frame TRBrace (FObject ps None # st) = deliver (JObject ps) st"
| "close_frame _ _ = None"

fun step :: "mode \<Rightarrow> frame list \<Rightarrow> jtoken \<Rightarrow> (mode \<times> frame list) option" where
  "step MValue st t = begin_value t st"
| "step MValueOrEnd st t = (if t = TRBracket then close_frame t st else begin_value t st)"
| "step MKeyOrEnd st t = (if t = TRBrace then close_frame t st else begin_key t st)"
| "step MKey st t = begin_key t st"
| "step MColon st t = (if t = TColon then Some (MValue, st) else None)"
| "step MAfter st t =
     (if t = TComma
      then (case st of
              FArray vs # st' \<Rightarrow> Some (MValue, st)
            | FObject ps None # st' \<Rightarrow> Some (MKey, st)
            | _ \<Rightarrow> None)
      else close_frame t st)"
| "step (MDone v) st t = None"

fun parse :: "mode \<Rightarrow> frame list \<Rightarrow> jtoken list \<Rightarrow> json option" where
  "parse m st [] = (case m of MDone v \<Rightarrow> Some v | _ \<Rightarrow> None)"
| "parse m st (t # ts) =
     (case step m st t of None \<Rightarrow> None | Some (m', st') \<Rightarrow> parse m' st' ts)"

definition py_json_loads :: "string \<Rightarrow> error + json" where
  "py_json_loads s =
     (case lex 0 s of
        None \<Rightarrow> Inl JSONDecodeError
      | Some ts \<Rightarrow> (case parse MValue [] ts of None \<Rightarrow> Inl JSONDecodeError | Some v \<Rightarrow> Inr v))"

subsection \<open>The timestamp helper\<close>

text \<open>
  \<open>_get_future_timestamp_seconds(minutes)\<close> is
  \<open>int((datetime.now(timezone.utc) + timedelta(minutes=minutes)).timestamp())\<close>.
  The first argument of the model is what \<open>datetime.now(timezone.utc)\<close> returned, in
  microseconds since the epoch (a datetime has microsecond resolution). Adding the
  timedelta is exact and raises OverflowError when the sum leaves the years 1 to 9999.
  \<open>timestamp()\<close> divides the microseconds by \<open>10**6\<close> with Python's true division of
  integers, which returns the double nearest to the quotient (ties to even), and \<open>int\<close>
  truncates that double towards zero.
\<close>

definition datetime_min_us :: int where
  "datetime_min_us = - 62135596800 * 1000000"

definition datetime_max_us :: int where
  "datetime_max_us = 253402300799 * 1000000 + 999999"

definition round_half_even :: "rat \<Rightarrow> int" where
  "round_half_even q =
     (let f = \<lfloor>q\<rfloor>; r = q - of_int f
      in if r < 1 / 2 then f else if 1 / 2 < r then f + 1 else if even f then f else f + 1)"

text \<open>The exponent \<open>e\<close> with \<open>2^e \<le> a / b < 2^(e + 1)\<close>, for positive \<open>a\<close> and \<open>b\<close>.\<close>

definition binade :: "int \<Rightarrow> int \<Rightarrow> int" where
  "binade a b =
     (let d = bitlen a - bitlen b
      in if (2 :: rat) powi d \<le> of_int a / of_int b then d else d - 1)"

text \<open>The value of the double that \<open>a / b\<close> returns, for integers \<open>a\<close> and \<open>b > 0\<close> whose
  quotient is zero or in the range of normal doubles.\<close>

definition true_divide :: "int \<Rightarrow> int \<Rightarrow> rat" where
  "true_divide a b =
     (if a = 0 then 0
      else let q = of_int \<bar>a\<bar> / of_int b;
               ulp = (2 :: rat) powi (binade \<bar>a\<bar> b - 52)
           in of_int (sgn a) * (of_int (round_half_even (q / ulp)) * ulp))"

definition int_of_float :: "rat \<Rightarrow> int" where
  "int_of_float x = (if 0 \<le> x then \<lfloor>x\<rfloor> else \<lceil>x\<rceil>)"

definition get_future_timestamp_seconds :: "int \<Rightarrow> int \<Rightarrow> error + int" where
  "get_future_timestamp_seconds now_us minutes =
     (let t = now_us + minutes * 60 * 1000000
      in if t < datetime_min_us \<or> datetime_max_us < t then Inl OverflowError
         else Inr (int_of_float (true_divide t 1000000)))"

subsection \<open>Arguments\<close>

record args =
  args_file :: string
  args_table :: string
  args_number :: string
  args_commit :: bool

text \<open>The command line as argparse sees it: for each option the value string given to it,
  or None when the option is absent.\<close>

record raw_args =
  opt_file :: "string option"
  opt_table :: "string option"
  opt_number :: "string option"
  opt_commit :: "string option"

text \<open>\<open>type=bool\<close> makes argparse call \<open>bool\<close> on the value string; the default is used
  as it is when the option is absent. A missing required option ends the process with the
  usage message (None).\<close>

definition py_bool :: "string \<Rightarrow> bool" where
  "py_bool s = (s \<noteq> [])"

definition get_args :: "raw_args \<Rightarrow> args option" where
  "get_args r =
     (case (opt_file r, opt_table r, opt_number r) of
        (Some f, Some t, Some n) \<Rightarrow>
          Some \<lparr>args_file = f, args_table = t, args_number = n,
                args_commit = (case opt_commit r of None \<Rightarrow> False | Some s \<Rightarrow> py_bool s)\<rparr>
      | _ \<Rightarrow> None)"

subsection \<open>The world of the script\<close>

text \<open>A printed line is a text, or a text followed by \<open>str(item)\<close>.\<close>

datatype line = Line string | ItemLine string json

text \<open>The calls made on the batch writer: the scoped session is entered, \<open>put_item\<close>
  returned (Submitted) or raised (Rejected), the session is exited.\<close>

datatype batch_event = Entered | Submitted json | Rejected json | Exited

record world =
  stdout :: "line list"
  uuid_calls :: nat
  clock_calls :: nat
  batch_log :: "batch_event list"

text \<open>
  What the script cannot decide itself: the file system, the k-th random identifier, the
  k-th reading of the clock, the JSON decoder, and whether a call on the batch writer
  raises, given the calls made before. \<open>dynamodb.Table\<close> and \<open>table.batch_writer\<close> only
  build objects. \<open>BatchWriter.__exit__\<close> returns None, so it never swallows an exception.
\<close>

record env =
  read_file :: "string \<Rightarrow> error + string"
  uuid4 :: "nat \<Rightarrow> string"
  utc_now_us :: "nat \<Rightarrow> int"
  json_loads :: "string \<Rightarrow> error + json"
  put_item_raises :: "batch_event list \<Rightarrow> json \<Rightarrow> error option"
  exit_raises :: "batch_event list \<Rightarrow> error option"
  int_max_str_digits :: nat

definition initial_world :: world where
  "initial_world = \<lparr>stdout = [], uuid_calls = 0, clock_calls = 0, batch_log = []\<rparr>"

definition print :: "line \<Rightarrow> world \<Rightarrow> world" where
  "print l w = w\<lparr>stdout := stdout w @ [l]\<rparr>"

definition put_item :: "env \<Rightarrow> json \<Rightarrow> world \<Rightarrow> world \<times> error option" where
  "put_item E item w =
     (case put_item_raises E (batch_log w) item of
        Some e \<Rightarrow> (w\<lparr>batch_log := batch_log w @ [Rejected item]\<rparr>, Some e)
      | None \<Rightarrow> (w\<lparr>batch_log := batch_log w @ [Submitted item]\<rparr>, None))"

subsection \<open>\<open>main\<close>\<close>

definition msg_prefix :: "args \<Rightarrow> string" where
  "msg_prefix a = (if \<not> args_commit a then ''[DRY RUN] '' else [])"

definition template_vars :: "string \<Rightarrow> int \<Rightarrow> int \<Rightarrow> (string \<rightharpoonup> pyval)" where
  "template_vars u now i =
     Map.empty(''UUID'' \<mapsto> PStr u, ''NOW'' \<mapsto> PInt now, ''BUILD'' \<mapsto> PInt i,
               ''FOO'' \<mapsto> PStr ''BAR'')"

text \<open>
  Lines 63 to 69, \<open>json.loads(template.substitute({...}))\<close>, for the iteration with index
  \<open>i\<close>: the dictionary is built from the \<open>ku\<close>-th random identifier, the timestamp of
  the \<open>kc\<close>-th reading of the clock, \<open>i\<close> and the constant; the first exception wins.
\<close>

definition render_item :: "env \<Rightarrow> string \<Rightarrow> nat \<Rightarrow> nat \<Rightarrow> int \<Rightarrow> error + json" where
  "render_item E template ku kc i =
     (case get_future_timestamp_seconds (utc_now_us E kc) 0 of
        Inl e \<Rightarrow> Inl e
      | Inr now \<Rightarrow>
         (case substitute (template_vars (uuid4 E ku) now i) template of
            Inl e \<Rightarrow> Inl e
          | Inr text \<Rightarrow> json_loads E text))"

text \<open>One pass through the body of the \<open>for\<close> loop, lines 61 to 73: the progress line,
  the item (one identifier and one reading of the clock are used up), then the write or
  the printed item.\<close>

definition iteration :: "env \<Rightarrow> args \<Rightarrow> string \<Rightarrow> int \<Rightarrow> world \<Rightarrow> world \<times> error option" where
  "iteration E a template i w =
     (let w1 = (if i mod 1000 = 0
                then print (Line (msg_prefix a @ ''Batch putting item '' @ str_int i)) w
                else w);
          w2 = w1\<lparr>uuid_calls := Suc (uuid_calls w1), clock_calls := Suc (clock_calls w1)\<rparr>
      in case render_item E template (uuid_calls w1) (clock_calls w1) i of
           Inl e \<Rightarrow> (w2, Some e)
         | Inr item \<Rightarrow>
             if args_commit a then put_item E item w2
             else (print (ItemLine (msg_prefix a @ ''Templated item: '') item) w2, None))"

text \<open>The \<open>for\<close> loop over \<open>range(1, int(args.number) + 1)\<close>: an exception ends it.\<close>

fun loop :: "env \<Rightarrow> args \<Rightarrow> string \<Rightarrow> int list \<Rightarrow> world \<Rightarrow> world \<times> error option" where
  "loop E a template [] w = (w, None)"
| "loop E a template (i # is) w =
     (case iteration E a template i w of
        (w', Some e) \<Rightarrow> (w', Some e)
      | (w', None) \<Rightarrow> loop E a template is w')"

text \<open>
  \<open>main\<close>: the header line, the template file, then the \<open>with\<close> block. \<open>int(args.number)\<close>
  is evaluated inside the block. The block's exit handler runs whether the body
  returned or raised; when the handler raises, its exception is the one that leaves the
  block. The last line is printed only when nothing was raised.
\<close>

definition main :: "env \<Rightarrow> args \<Rightarrow> world \<Rightarrow> world \<times> error option" where
  "main E a w =
     (let w1 = print (Line (msg_prefix a @ ''Batch creating '' @ args_number a
                   @ '' items using template '' @ args_file a @ '' into table '' @ args_table a
                   @ ''...'')) w
      in case read_file E (args_file a) of
           Inl e \<Rightarrow> (w1, Some e)
         | Inr template \<Rightarrow>
            (let w2 = w1\<lparr>batch_log := batch_log w1 @ [Entered]\<rparr>;
                 body = (case py_int (int_max_str_digits E) (args_number a) of
                           Inl e \<Rightarrow> (w2, Some e)
                         | Inr n \<Rightarrow> loop E a template [1..n] w2);
                 w3 = (fst body)\<lparr>batch_log := batch_log (fst body) @ [Exited]\<rparr>
             in case exit_raises E (batch_log (fst body)) of
                  Some e \<Rightarrow> (w3, Some e)
                | None \<Rightarrow>
                   (case snd body of
                      Some e \<Rightarrow> (w3, Some e)
                    | None \<Rightarrow> (print (Line (msg_prefix a @ ''Done.'')) w3, None))))"

text \<open>The process: argparse ends it with status 2, an exception that leaves \<open>main\<close> with
  status 1, and a normal return with status 0.\<close>

definition exit_status :: "error option \<Rightarrow> nat" where
  "exit_status r = (case r of None \<Rightarrow> 0 | Some e \<Rightarrow> 1)"

definition run :: "env \<Rightarrow> raw_args \<Rightarrow> world \<times> nat" where
  "run E r =
     (case get_args r of
        None \<Rightarrow> (initial_world, 2)
      | Some a \<Rightarrow> (fst (main E a initial_world), exit_status (snd (main E a initial_world))))"

subsection \<open>Notions used to state the properties\<close>

text \<open>The items of a run of the loop over the indices \<open>is\<close>, when the counters of the
  identifiers and of the clock stand at \<open>ku\<close> and \<open>kc\<close> at its start.\<close>

fun render_all :: "env \<Rightarrow> string \<Rightarrow> nat \<Rightarrow> nat \<Rightarrow> int list \<Rightarrow> (error + json) list" where
  "render_all E template ku kc [] = []"
| "render_all E template ku kc (i # is) =
     render_item E template ku kc i # render_all E template (Suc ku) (Suc kc) is"

definition header_line :: "args \<Rightarrow> line" where
  "header_line a =
     Line (msg_prefix a @ ''Batch creating '' @ args_number a @ '' items using template ''
           @ args_file a @ '' into table '' @ args_table a @ ''...'')"

definition done_line :: "args \<Rightarrow> line" where
  "done_line a = Line (msg_prefix a @ ''Done.'')"

definition progress_line :: "args \<Rightarrow> int \<Rightarrow> line" where
  "progress_line a i = Line (msg_prefix a @ ''Batch putting item '' @ str_int i)"

definition progress_lines :: "args \<Rightarrow> int list \<Rightarrow> line list" where
  "progress_lines a is = map (progress_line a) (filter (\<lambda>i. i mod 1000 = 0) is)"

text \<open>What a dry run prints in the loop: the progress line where one is due, then the
  item.\<close>

fun dry_lines :: "args \<Rightarrow> int list \<Rightarrow> json list \<Rightarrow> line list" where
  "dry_lines a (i # is) (v # vs) =
     (if i mod 1000 = 0 then [progress_line a i] else [])
     @ ItemLine (msg_prefix a @ ''Templated item: '') v # dry_lines a is vs"
| "dry_lines a _ _ = []"

fun printed_items :: "line list \<Rightarrow> json list" where
  "printed_items [] = []"
| "printed_items (Line s # ls) = printed_items ls"
| "printed_items (ItemLine s v # ls) = v # printed_items ls"

fun is_put :: "batch_event \<Rightarrow> bool" where
  "is_put (Submitted v) = True"
| "is_put (Rejected v) = True"
| "is_put _ = False"

fun is_object :: "json \<Rightarrow> bool" where
  "is_object (JObject ps) = True"
| "is_object _ = False"

definition supported :: "string set" where
  "supported = {''UUID'', ''NOW'', ''BUILD'', ''FOO''}"

subsection \<open>A concrete environment\<close>

text \<open>Four template files, identifiers that end in the number of the call, a clock that
  stands at 2026-11-04 00:00:00.123456 UTC, the decoder above, and a batch writer that
  never raises.\<close>

definition ex_template :: string where
  "ex_template = ''{\"id\": \"$UUID\", \"build\": $BUILD, \"expires\": $NOW, \"foo\": \"$FOO\"}''"

definition ex_files :: "string \<Rightarrow> error + string" where
  "ex_files p =
     (if p = ''item.json'' then Inr ex_template
      else if p = ''build.json'' then Inr ''$BUILD''
      else if p = ''const.json'' then Inr ''{\"pk\": \"$FOO\"}''
      else if p = ''price.json'' then Inr ''{\"cost\": \"$5\", \"x\": \"$UNKNOWN\"}''
      else if p = ''unknown.json'' then Inr ''{\"x\": \"$UNKNOWN\"}''
      else Inl (OSError ''No such file or directory''))"

definition ex_env :: env where
  "ex_env =
     \<lparr>read_file = ex_files,
      uuid4 = (\<lambda>k. ''7f3c2a10-5b7e-4c1d-9a52-00000000000'' @ [digit_char (k mod 10)]),
      utc_now_us = (\<lambda>k. 1793750400123456),
      json_loads = py_json_loads,
      put_item_raises = (\<lambda>log item. None),
      exit_raises = (\<lambda>log. None),
      int_max_str_digits = 4300\<rparr>"

definition ex_raw :: "string \<Rightarrow> string \<Rightarrow> string option \<Rightarrow> raw_args" where
  "ex_raw f n c =
     \<lparr>opt_file = Some f, opt_table = Some ''items'', opt_number = Some n, opt_commit = c\<rparr>"

definition ex_args :: "string \<Rightarrow> string \<Rightarrow> bool \<Rightarrow> args" where
  "ex_args f n c = \<lparr>args_file = f, args_table = ''items'', args_number = n, args_commit = c\<rparr>"

text \<open>The item that the first template renders to with the \<open>ku\<close>-th identifier and the
  index \<open>i\<close>, and an environment whose batch writer raises on the k-th submission.\<close>

definition codes :: "string \<Rightarrow> nat list" where
  "codes s = map of_char s"

definition ex_item :: "nat \<Rightarrow> int \<Rightarrow> json" where
  "ex_item ku i =
     JObject [(codes ''id'', JString (codes (uuid4 ex_env ku))),
              (codes ''build'', JInt i),
              (codes ''expires'', JInt 1793750400),
              (codes ''foo'', JString (codes ''BAR''))]"

definition ex_env_rejecting :: "nat \<Rightarrow> env" where
  "ex_env_rejecting k =
     ex_env\<lparr>put_item_raises :=
       (\<lambda>log item. if length log = k
                    then Some (ClientError ''ProvisionedThroughputExceededException'')
                    else None)\<rparr>"

text \<open>The item that the third template renders to in every iteration.\<close>

definition ex_const_item :: json where
  "ex_const_item = JObject [(codes ''pk'', JString (codes ''BAR''))]"

definition ex_const_items :: "nat \<Rightarrow> json list" where
  "ex_const_items n = replicate n ex_const_item"

section \<open>Properties\<close>

subsection \<open>The loop and \<open>main\<close> on a run without exception\<close>

lemma loop_append:
  "loop E a t (xs @ ys) w =
     (case loop E a t xs w of (w', Some e) \<Rightarrow> (w', Some e) | (w', None) \<Rightarrow> loop E a t ys w')"
  by (induction xs arbitrary: w) (auto split: prod.splits option.splits)

lemma loop_dry_ok:
  assumes "\<not> args_commit a"
    and "render_all E t (uuid_calls w) (clock_calls w) is = map Inr items"
  shows "loop E a t is w =
      (w\<lparr>stdout := stdout w @ dry_lines a is items,
         uuid_calls := uuid_calls w + length is,
         clock_calls := clock_calls w + length is\<rparr>, None)"
  using assms
proof (induction "is" arbitrary: w items)
  case Nil
  then show ?case by simp
next
  case (Cons i "is")
  then obtain v vs where items: "items = v # vs" by (cases items) auto
  from Cons.prems(2) items
  have r: "render_item E t (uuid_calls w) (clock_calls w) i = Inr v"
    and rs: "render_all E t (Suc (uuid_calls w)) (Suc (clock_calls w)) is = map Inr vs"
    by simp_all
  show ?case
    using Cons.prems(1) r rs items
    by (simp add: iteration_def Let_def print_def progress_line_def Cons.IH [where items = vs])
qed

lemma loop_commit_ok:
  assumes "args_commit a"
    and "render_all E t (uuid_calls w) (clock_calls w) is = map Inr items"
    and "\<forall>k < length items.
           put_item_raises E (batch_log w @ map Submitted (take k items)) (items ! k) = None"
  shows "loop E a t is w =
      (w\<lparr>stdout := stdout w @ progress_lines a is,
         uuid_calls := uuid_calls w + length is,
         clock_calls := clock_calls w + length is,
         batch_log := batch_log w @ map Submitted items\<rparr>, None)"
  using assms
proof (induction "is" arbitrary: w items)
  case Nil
  then show ?case by (simp add: progress_lines_def)
next
  case (Cons i "is")
  then obtain v vs where items: "items = v # vs" by (cases items) auto
  from Cons.prems(2) items
  have r: "render_item E t (uuid_calls w) (clock_calls w) i = Inr v"
    and rs: "render_all E t (Suc (uuid_calls w)) (Suc (clock_calls w)) is = map Inr vs"
    by simp_all
  from Cons.prems(3) items have p0: "put_item_raises E (batch_log w) v = None"
    by (auto dest: spec [where x = 0])
  have pk: "\<forall>k < length vs.
      put_item_raises E ((batch_log w @ [Submitted v]) @ map Submitted (take k vs)) (vs ! k) = None"
  proof (intro allI impI)
    fix k assume "k < length vs"
    with Cons.prems(3) items
    have "put_item_raises E (batch_log w @ map Submitted (take (Suc k) items)) (items ! Suc k)
          = None"
      by (auto dest: spec [where x = "Suc k"])
    with items
    show "put_item_raises E ((batch_log w @ [Submitted v]) @ map Submitted (take k vs)) (vs ! k)
          = None"
      by simp
  qed
  show ?case
    using Cons.prems(1) r rs items p0 pk
    by (simp add: iteration_def Let_def print_def put_item_def progress_lines_def
        progress_line_def Cons.IH [where items = vs])
qed

lemma main_dry_ok:
  assumes "\<not> args_commit a"
    and "read_file E (args_file a) = Inr t"
    and "py_int (int_max_str_digits E) (args_number a) = Inr n"
    and "render_all E t (uuid_calls w) (clock_calls w) [1..n] = map Inr items"
    and "exit_raises E (batch_log w @ [Entered]) = None"
  shows "main E a w =
      (w\<lparr>stdout := stdout w @ header_line a # dry_lines a [1..n] items @ [done_line a],
         uuid_calls := uuid_calls w + nat n,
         clock_calls := clock_calls w + nat n,
         batch_log := batch_log w @ [Entered, Exited]\<rparr>, None)"
proof -
  let ?w2 = "(print (header_line a) w)\<lparr>batch_log := batch_log w @ [Entered]\<rparr>"
  have "loop E a t [1..n] ?w2 =
      (?w2\<lparr>stdout := stdout ?w2 @ dry_lines a [1..n] items,
         uuid_calls := uuid_calls ?w2 + length [1..n],
         clock_calls := clock_calls ?w2 + length [1..n]\<rparr>, None)"
    using assms(1,4) by (intro loop_dry_ok) (simp_all add: print_def)
  then show ?thesis
    using assms(2,3,5)
    by (simp add: main_def Let_def print_def header_line_def done_line_def)
qed

lemma main_commit_ok:
  assumes "args_commit a"
    and "read_file E (args_file a) = Inr t"
    and "py_int (int_max_str_digits E) (args_number a) = Inr n"
    and "render_all E t (uuid_calls w) (clock_calls w) [1..n] = map Inr items"
    and "\<forall>k < length items.
           put_item_raises E (batch_log w @ Entered # map Submitted (take k items)) (items ! k)
           = None"
    and "exit_raises E (batch_log w @ Entered # map Submitted items) = None"
  shows "main E a w =
      (w\<lparr>stdout := stdout w @ header_line a # progress_lines a [1..n] @ [done_line a],
         uuid_calls := uuid_calls w + nat n,
         clock_calls := clock_calls w + nat n,
         batch_log := batch_log w @ Entered # map Submitted items @ [Exited]\<rparr>, None)"
proof -
  let ?w2 = "(print (header_line a) w)\<lparr>batch_log := batch_log w @ [Entered]\<rparr>"
  have "loop E a t [1..n] ?w2 =
      (?w2\<lparr>stdout := stdout ?w2 @ progress_lines a [1..n],
         uuid_calls := uuid_calls ?w2 + length [1..n],
         clock_calls := clock_calls ?w2 + length [1..n],
         batch_log := batch_log ?w2 @ map Submitted items\<rparr>, None)"
    using assms(1,4,5) by (intro loop_commit_ok) (simp_all add: print_def)
  then show ?thesis
    using assms(2,3,6)
    by (simp add: main_def Let_def print_def header_line_def done_line_def)
qed

lemma iteration_batch_log:
  "batch_log (fst (iteration E a t i w)) =
     batch_log w @
       (if args_commit a
        then (case render_item E t (uuid_calls w) (clock_calls w) i of
                Inl e \<Rightarrow> []
              | Inr item \<Rightarrow>
                  [if put_item_raises E (batch_log w) item = None then Submitted item
                   else Rejected item])
        else [])"
  by (simp add: iteration_def Let_def print_def put_item_def split: sum.splits option.splits)

subsection \<open>The concrete environment evaluated\<close>

text \<open>The definitions are evaluated by rewriting with their equations.\<close>

lemma ex_timestamp: "get_future_timestamp_seconds 1793750400123456 0 = Inr 1793750400"
  by code_simp

lemma digit_char_eval:
  "digit_char 0 = CHR ''0''" "digit_char 1 = CHR ''1''" "digit_char (Suc 0) = CHR ''1''"
  "digit_char 2 = CHR ''2''"
  "digit_char 3 = CHR ''3''" "digit_char 4 = CHR ''4''" "digit_char 5 = CHR ''5''"
  "digit_char 6 = CHR ''6''" "digit_char 7 = CHR ''7''" "digit_char 8 = CHR ''8''"
  "digit_char 9 = CHR ''9''"
  by code_simp+

lemmas template_eval =
  substitute_def template_vars_def is_id_start_def is_id_char_def is_digit_def str_int_def
  digit_char_eval

lemmas json_eval =
  py_json_loads_def token_at_def starts_with_def is_ws_def match_number_def match_frac_def
  match_exp_def is_digit_def digits_value_def digit_val_def cons_code_def escape_char_def
  hex4_def hex_val_def codes_def Let_def

lemma ex_env_eval:
  "utc_now_us ex_env k = 1793750400123456" "json_loads ex_env = py_json_loads"
  by (simp_all add: ex_env_def)

lemma ex_render_1: "render_item ex_env ex_template 0 0 1 = Inr (ex_item 0 1)"
proof -
  have s: "substitute (template_vars (uuid4 ex_env 0) 1793750400 1) ex_template
      = Inr ''{\"id\": \"7f3c2a10-5b7e-4c1d-9a52-000000000000\", \"build\": 1, \"expires\": 1793750400, \"foo\": \"BAR\"}''"
    by (simp add: template_eval ex_template_def ex_env_def)
  have j: "py_json_loads ''{\"id\": \"7f3c2a10-5b7e-4c1d-9a52-000000000000\", \"build\": 1, \"expires\": 1793750400, \"foo\": \"BAR\"}''
      = Inr (ex_item 0 1)"
    by (simp add: json_eval ex_item_def ex_env_def digit_char_eval)
  show ?thesis
    using s j by (simp add: render_item_def ex_env_eval ex_timestamp)
qed

lemma ex_render_2: "render_item ex_env ex_template 1 1 2 = Inr (ex_item 1 2)"
proof -
  have s: "substitute (template_vars (uuid4 ex_env 1) 1793750400 2) ex_template
      = Inr ''{\"id\": \"7f3c2a10-5b7e-4c1d-9a52-000000000001\", \"build\": 2, \"expires\": 1793750400, \"foo\": \"BAR\"}''"
    by (simp add: template_eval ex_template_def ex_env_def)
  have j: "py_json_loads ''{\"id\": \"7f3c2a10-5b7e-4c1d-9a52-000000000001\", \"build\": 2, \"expires\": 1793750400, \"foo\": \"BAR\"}''
      = Inr (ex_item 1 2)"
    by (simp add: json_eval ex_item_def ex_env_def digit_char_eval)
  show ?thesis
    using s j by (simp add: render_item_def ex_env_eval ex_timestamp)
qed

lemma ex_render_3: "render_item ex_env ex_template 2 2 3 = Inr (ex_item 2 3)"
proof -
  have s: "substitute (template_vars (uuid4 ex_env 2) 1793750400 3) ex_template
      = Inr ''{\"id\": \"7f3c2a10-5b7e-4c1d-9a52-000000000002\", \"build\": 3, \"expires\": 1793750400, \"foo\": \"BAR\"}''"
    by (simp add: template_eval ex_template_def ex_env_def)
  have j: "py_json_loads ''{\"id\": \"7f3c2a10-5b7e-4c1d-9a52-000000000002\", \"build\": 3, \"expires\": 1793750400, \"foo\": \"BAR\"}''
      = Inr (ex_item 2 3)"
    by (simp add: json_eval ex_item_def ex_env_def digit_char_eval)
  show ?thesis
    using s j by (simp add: render_item_def ex_env_eval ex_timestamp)
qed

lemma ex_py_int: "py_int 4300 ''3'' = Inr 3" "py_int 4300 ''2'' = Inr 2" "py_int 4300 ''1'' = Inr 1"
  by code_simp+

lemma ex_render_all_3:
  "render_all ex_env ex_template 0 0 [1..3] = map Inr [ex_item 0 1, ex_item 1 2, ex_item 2 3]"
proof -
  have "[1..3] = [1, 2, 3 :: int]" by code_simp
  then show ?thesis
    using ex_render_1 ex_render_2 ex_render_3 by (simp add: numeral_2_eq_2 numeral_3_eq_3)
qed

subsection \<open>The commit flag\<close>

text \<open>
  Claim C9. The commit flag is \<open>bool\<close> of the raw value string: it is true for every
  value that is not empty (so for \<open>false\<close>, \<open>0\<close> and \<open>no\<close>), and false exactly when the
  option is absent or its value is the empty string. On a run in which the file is read,
  the count parses, every item renders and the batch writer does not raise, the process
  with a value that is not empty performs the writes: every rendered item is handed to
  \<open>put_item\<close> once, in order, no line carries the dry-run marker and no item is printed.
  With the option absent or empty the same run is a dry run: the items are printed with the
  marker and the session is entered and exited with nothing handed to it.
\<close>

theorem commit_flag_is_truth_of_string:
  assumes "get_args r = Some a"
    and "read_file E (args_file a) = Inr t"
    and "py_int (int_max_str_digits E) (args_number a) = Inr n"
    and "render_all E t 0 0 [1..n] = map Inr items"
    and "\<forall>k < length items.
           put_item_raises E (Entered # map Submitted (take k items)) (items ! k) = None"
    and "exit_raises E (Entered # map Submitted items) = None"
    and "exit_raises E [Entered] = None"
  shows "(args_commit a \<longleftrightarrow> (\<exists>s. opt_commit r = Some s \<and> s \<noteq> []))
       \<and> ((\<exists>s. opt_commit r = Some s \<and> s \<noteq> []) \<longrightarrow>
            msg_prefix a = [] \<and>
            run E r =
              (\<lparr>stdout = header_line a # progress_lines a [1..n] @ [done_line a],
                uuid_calls = nat n, clock_calls = nat n,
                batch_log = Entered # map Submitted items @ [Exited]\<rparr>, 0))
       \<and> (opt_commit r = None \<or> opt_commit r = Some [] \<longrightarrow>
            msg_prefix a = ''[DRY RUN] '' \<and>
            run E r =
              (\<lparr>stdout = header_line a # dry_lines a [1..n] items @ [done_line a],
                uuid_calls = nat n, clock_calls = nat n,
                batch_log = [Entered, Exited]\<rparr>, 0))"
proof -
  from assms(1)
  have c: "args_commit a = (case opt_commit r of None \<Rightarrow> False | Some s \<Rightarrow> s \<noteq> [])"
    by (auto simp: get_args_def py_bool_def split: option.splits)
  have flag: "args_commit a \<longleftrightarrow> (\<exists>s. opt_commit r = Some s \<and> s \<noteq> [])"
    by (cases "opt_commit r") (simp_all add: c)
  have dry: "\<not> args_commit a \<longleftrightarrow> opt_commit r = None \<or> opt_commit r = Some []"
    by (cases "opt_commit r") (simp_all add: c)
  have commit_run: "msg_prefix a = [] \<and> run E r =
      (\<lparr>stdout = header_line a # progress_lines a [1..n] @ [done_line a],
        uuid_calls = nat n, clock_calls = nat n,
        batch_log = Entered # map Submitted items @ [Exited]\<rparr>, 0)"
    if ca: "args_commit a"
  proof -
    have "main E a initial_world =
      (initial_world\<lparr>stdout := stdout initial_world @ header_line a # progress_lines a [1..n]
             @ [done_line a],
         uuid_calls := uuid_calls initial_world + nat n,
         clock_calls := clock_calls initial_world + nat n,
         batch_log := batch_log initial_world @ Entered # map Submitted items @ [Exited]\<rparr>, None)"
      using ca assms(2,3) assms(4,5,6)
      by (intro main_commit_ok) (simp_all add: initial_world_def)
    then show ?thesis
      using assms(1) ca by (simp add: run_def exit_status_def initial_world_def msg_prefix_def)
  qed
  have dry_run: "msg_prefix a = ''[DRY RUN] '' \<and> run E r =
      (\<lparr>stdout = header_line a # dry_lines a [1..n] items @ [done_line a],
        uuid_calls = nat n, clock_calls = nat n,
        batch_log = [Entered, Exited]\<rparr>, 0)"
    if nc: "\<not> args_commit a"
  proof -
    have "main E a initial_world =
      (initial_world\<lparr>stdout := stdout initial_world @ header_line a # dry_lines a [1..n] items
             @ [done_line a],
         uuid_calls := uuid_calls initial_world + nat n,
         clock_calls := clock_calls initial_world + nat n,
         batch_log := batch_log initial_world @ [Entered, Exited]\<rparr>, None)"
      using nc assms(2,3) assms(4,7)
      by (intro main_dry_ok) (simp_all add: initial_world_def)
    then show ?thesis
      using assms(1) nc by (simp add: run_def exit_status_def initial_world_def msg_prefix_def)
  qed
  show ?thesis
    using flag dry commit_run dry_run by blast
qed

theorem commit_flag_is_truth_of_string_witness:
  "run ex_env (ex_raw ''item.json'' ''3'' (Some ''false'')) =
     (\<lparr>stdout = [Line ''Batch creating 3 items using template item.json into table items...'',
                 Line ''Done.''],
       uuid_calls = 3, clock_calls = 3,
       batch_log = [Entered, Submitted (ex_item 0 1), Submitted (ex_item 1 2),
                    Submitted (ex_item 2 3), Exited]\<rparr>, 0)"
proof -
  let ?r = "ex_raw ''item.json'' ''3'' (Some ''false'')"
  let ?a = "ex_args ''item.json'' ''3'' True"
  let ?items = "[ex_item 0 1, ex_item 1 2, ex_item 2 3]"
  have g: "get_args ?r = Some ?a"
    by (simp add: get_args_def ex_raw_def ex_args_def py_bool_def)
  have f: "read_file ex_env (args_file ?a) = Inr ex_template"
    by (simp add: ex_env_def ex_files_def ex_args_def)
  have n: "py_int (int_max_str_digits ex_env) (args_number ?a) = Inr 3"
    by (simp add: ex_env_def ex_args_def ex_py_int)
  have p: "\<forall>k < length ?items.
      put_item_raises ex_env (Entered # map Submitted (take k ?items)) (?items ! k) = None"
    by (simp add: ex_env_def)
  have x1: "exit_raises ex_env (Entered # map Submitted ?items) = None"
    by (simp add: ex_env_def)
  have x2: "exit_raises ex_env [Entered] = None"
    by (simp add: ex_env_def)
  have o: "\<exists>s. opt_commit ?r = Some s \<and> s \<noteq> []"
    by (simp add: ex_raw_def)
  have pl: "\<And>b. progress_lines b [1..3] = []"
    by (simp add: progress_lines_def)
  from commit_flag_is_truth_of_string [OF g f n ex_render_all_3 p x1 x2] o
  have "run ex_env ?r =
      (\<lparr>stdout = header_line ?a # progress_lines ?a [1..3] @ [done_line ?a],
        uuid_calls = nat 3, clock_calls = nat 3,
        batch_log = Entered # map Submitted ?items @ [Exited]\<rparr>, 0)"
    by blast
  then show ?thesis
    by (simp add: pl header_line_def done_line_def msg_prefix_def ex_args_def)
qed

subsection \<open>A count that is not positive\<close>

text \<open>
  Claim C10. When \<open>--number\<close> parses as an integer that is zero or negative, the range is
  empty: no identifier is drawn, the clock is not read, nothing is printed but the header
  and the final line, nothing is handed to the batch writer, and the process ends with
  status 0. No positivity check stands in the way. (The template file is readable and
  closing the empty session does not raise.)
\<close>

theorem nonpositive_count_runs_no_iteration:
  assumes "get_args r = Some a"
    and "read_file E (args_file a) = Inr t"
    and "py_int (int_max_str_digits E) (args_number a) = Inr n"
    and "n \<le> 0"
    and "exit_raises E [Entered] = None"
  shows "run E r =
      (initial_world\<lparr>stdout := [header_line a, done_line a], batch_log := [Entered, Exited]\<rparr>, 0)"
proof -
  from assms(4) have "[1..n] = []" by simp
  then have "main E a initial_world =
      (initial_world\<lparr>stdout := [header_line a, done_line a], batch_log := [Entered, Exited]\<rparr>,
       None)"
    using assms(2,3,5)
    by (simp add: main_def Let_def print_def header_line_def done_line_def initial_world_def)
  then show ?thesis
    using assms(1) by (simp add: run_def exit_status_def)
qed

theorem nonpositive_count_runs_no_iteration_witness:
  "run ex_env (ex_raw ''unknown.json'' '' -5'' (Some ''yes'')) =
     (\<lparr>stdout = [Line ''Batch creating  -5 items using template unknown.json into table items...'',
                 Line ''Done.''],
       uuid_calls = 0, clock_calls = 0, batch_log = [Entered, Exited]\<rparr>, 0)"
proof -
  let ?a = "ex_args ''unknown.json'' '' -5'' True"
  have g: "get_args (ex_raw ''unknown.json'' '' -5'' (Some ''yes'')) = Some ?a"
    by (simp add: get_args_def ex_raw_def ex_args_def py_bool_def)
  have f: "read_file ex_env (args_file ?a) = Inr ''{\"x\": \"$UNKNOWN\"}''"
    by (simp add: ex_env_def ex_files_def ex_args_def)
  have n: "py_int (int_max_str_digits ex_env) (args_number ?a) = Inr (- 5)"
    by (simp add: ex_env_def ex_args_def) code_simp
  have x: "exit_raises ex_env [Entered] = None"
    by (simp add: ex_env_def)
  from nonpositive_count_runs_no_iteration [OF g f n _ x]
  show ?thesis
    by (simp add: header_line_def done_line_def msg_prefix_def ex_args_def initial_world_def)
qed

lemma loop_batch_log:
  "\<exists>mid. batch_log (fst (loop E a t is w)) = batch_log w @ mid \<and> list_all is_put mid"
proof (induction "is" arbitrary: w)
  case Nil
  then show ?case by simp
next
  case (Cons i "is")
  obtain w' r where it: "iteration E a t i w = (w', r)" by (cases "iteration E a t i w")
  have "batch_log w' = batch_log (fst (iteration E a t i w))" using it by simp
  then obtain m1 where m1: "batch_log w' = batch_log w @ m1" "list_all is_put m1"
    unfolding iteration_batch_log by (auto split: sum.splits)
  show ?case
  proof (cases r)
    case None
    from Cons.IH [of w'] obtain m2
      where "batch_log (fst (loop E a t is w')) = batch_log w' @ m2" "list_all is_put m2"
      by blast
    with m1 it None show ?thesis by (intro exI [where x = "m1 @ m2"]) simp
  next
    case (Some e)
    with m1 it show ?thesis by (intro exI [where x = m1]) simp
  qed
qed

subsection \<open>The scoped session of the batch writer\<close>

text \<open>
  Claim C7. Whatever happens after the template file has been read, the session that was
  entered is exited: \<open>int(args.number)\<close> may raise, an iteration may raise while rendering
  or in \<open>put_item\<close>, the loop may complete, the exit handler itself may raise; in every
  case the log of the batch writer is Entered, then only calls of \<open>put_item\<close>, then Exited.
  When the file cannot be read the session is never entered.
\<close>

theorem session_exited_on_every_path:
  "case read_file E (args_file a) of
     Inl e \<Rightarrow> batch_log (fst (main E a w)) = batch_log w
   | Inr t \<Rightarrow> \<exists>mid. batch_log (fst (main E a w)) = batch_log w @ Entered # mid @ [Exited]
                    \<and> list_all is_put mid"
proof (cases "read_file E (args_file a)")
  case (Inl e)
  then show ?thesis by (simp add: main_def Let_def print_def)
next
  case (Inr t)
  let ?w2 = "(print (header_line a) w)\<lparr>batch_log := batch_log w @ [Entered]\<rparr>"
  show ?thesis
  proof (cases "py_int (int_max_str_digits E) (args_number a)")
    case (Inl e)
    with Inr show ?thesis
      by (auto simp: main_def Let_def print_def split: option.splits intro: exI [where x = "[]"])
  next
    case n: (Inr n)
    from loop_batch_log [of E a t "[1..n]" ?w2] obtain mid
      where mid: "batch_log (fst (loop E a t [1..n] ?w2)) = batch_log ?w2 @ mid"
        "list_all is_put mid"
      by blast
    with Inr n show ?thesis
      by (auto simp: main_def Let_def print_def header_line_def split: option.splits
          intro!: exI [where x = mid])
  qed
qed

theorem session_exited_on_every_path_witness:
  "read_file ex_env (args_file (ex_args ''unknown.json'' ''2'' True))
     = Inr ''{\"x\": \"$UNKNOWN\"}''
   \<and> (\<exists>mid. batch_log (fst (main ex_env (ex_args ''unknown.json'' ''2'' True) initial_world))
               = Entered # mid @ [Exited]
            \<and> list_all is_put mid)"
proof -
  have r: "read_file ex_env (args_file (ex_args ''unknown.json'' ''2'' True))
           = Inr ''{\"x\": \"$UNKNOWN\"}''"
    by (simp add: ex_env_def ex_files_def ex_args_def)
  from session_exited_on_every_path
         [of ex_env "ex_args ''unknown.json'' ''2'' True" initial_world]
  show ?thesis
    unfolding r by (simp add: initial_world_def)
qed

lemma length_render_all: "length (render_all E t ku kc is) = length is"
  by (induction "is" arbitrary: ku kc) simp_all

lemma render_all_append:
  "render_all E t ku kc (xs @ ys) =
     render_all E t ku kc xs @ render_all E t (ku + length xs) (kc + length xs) ys"
  by (induction xs arbitrary: ku kc) simp_all

lemma loop_commit_reject:
  assumes "args_commit a"
    and "render_all E t (uuid_calls w) (clock_calls w) (is @ [i]) = map Inr (pre @ [v])"
    and "\<forall>j < length pre.
           put_item_raises E (batch_log w @ map Submitted (take j pre)) (pre ! j) = None"
    and "put_item_raises E (batch_log w @ map Submitted pre) v = Some e"
  shows "loop E a t (is @ i # rest) w =
      (w\<lparr>stdout := stdout w @ progress_lines a (is @ [i]),
         uuid_calls := uuid_calls w + length is + 1,
         clock_calls := clock_calls w + length is + 1,
         batch_log := batch_log w @ map Submitted pre @ [Rejected v]\<rparr>, Some e)"
proof -
  have "length (render_all E t (uuid_calls w) (clock_calls w) (is @ [i])) = Suc (length is)"
    by (simp add: length_render_all)
  with assms(2) have len: "length is = length pre"
    by simp
  from assms(2) len
  have r1: "render_all E t (uuid_calls w) (clock_calls w) is = map Inr pre"
    and r2: "render_item E t (uuid_calls w + length is) (clock_calls w + length is) i = Inr v"
    by (simp_all add: render_all_append)
  let ?w' = "w\<lparr>stdout := stdout w @ progress_lines a is,
         uuid_calls := uuid_calls w + length is,
         clock_calls := clock_calls w + length is,
         batch_log := batch_log w @ map Submitted pre\<rparr>"
  have l1: "loop E a t is w = (?w', None)"
    using assms(1) r1 assms(3) by (rule loop_commit_ok)
  have it: "iteration E a t i ?w' =
      (w\<lparr>stdout := stdout w @ progress_lines a (is @ [i]),
         uuid_calls := uuid_calls w + length is + 1,
         clock_calls := clock_calls w + length is + 1,
         batch_log := batch_log w @ map Submitted pre @ [Rejected v]\<rparr>, Some e)"
    using assms(1,4) r2
    by (simp add: iteration_def Let_def print_def put_item_def progress_lines_def
        progress_line_def)
  show ?thesis
    using l1 it by (simp add: loop_append)
qed

lemma ex_run_commit_3:
  "main ex_env (ex_args ''item.json'' ''3'' True) initial_world =
     (\<lparr>stdout = [Line ''Batch creating 3 items using template item.json into table items...'',
                 Line ''Done.''],
       uuid_calls = 3, clock_calls = 3,
       batch_log = [Entered, Submitted (ex_item 0 1), Submitted (ex_item 1 2),
                    Submitted (ex_item 2 3), Exited]\<rparr>, None)"
proof -
  let ?a = "ex_args ''item.json'' ''3'' True"
  let ?items = "[ex_item 0 1, ex_item 1 2, ex_item 2 3]"
  have "main ex_env ?a initial_world =
      (initial_world\<lparr>stdout := stdout initial_world @ header_line ?a # progress_lines ?a [1..3]
             @ [done_line ?a],
         uuid_calls := uuid_calls initial_world + nat 3,
         clock_calls := clock_calls initial_world + nat 3,
         batch_log := batch_log initial_world @ Entered # map Submitted ?items @ [Exited]\<rparr>, None)"
  proof (rule main_commit_ok)
    show "args_commit ?a" by (simp add: ex_args_def)
    show "read_file ex_env (args_file ?a) = Inr ex_template"
      by (simp add: ex_env_def ex_files_def ex_args_def)
    show "py_int (int_max_str_digits ex_env) (args_number ?a) = Inr 3"
      by (simp add: ex_env_def ex_args_def ex_py_int)
    show "render_all ex_env ex_template (uuid_calls initial_world) (clock_calls initial_world) [1..3]
          = map Inr ?items"
      using ex_render_all_3 by (simp add: initial_world_def)
    show "\<forall>k<length ?items.
       put_item_raises ex_env (batch_log initial_world @ Entered # map Submitted (take k ?items))
         (?items ! k) = None"
      by (simp add: ex_env_def)
    show "exit_raises ex_env (batch_log initial_world @ Entered # map Submitted ?items) = None"
      by (simp add: ex_env_def)
  qed
  moreover have "\<And>b. progress_lines b [1..3] = []"
    by (simp add: progress_lines_def)
  ultimately show ?thesis
    by (simp add: header_line_def done_line_def msg_prefix_def ex_args_def initial_world_def)
qed

subsection \<open>The dry run\<close>

text \<open>
  Claim C1. Invoked with \<open>--commit=false\<close>, a readable template and the count 3, the
  process is not a dry run: \<open>bool\<close> of the string \<open>false\<close> is true, so the three rendered
  items are handed to \<open>put_item\<close>, no item is printed, no line carries the dry-run marker,
  and the process ends with status 0.
\<close>

theorem commit_false_performs_writes:
  "get_args (ex_raw ''item.json'' ''3'' (Some ''false'')) = Some (ex_args ''item.json'' ''3'' True)
   \<and> batch_log (fst (run ex_env (ex_raw ''item.json'' ''3'' (Some ''false''))))
       = [Entered, Submitted (ex_item 0 1), Submitted (ex_item 1 2), Submitted (ex_item 2 3),
          Exited]
   \<and> printed_items (stdout (fst (run ex_env (ex_raw ''item.json'' ''3'' (Some ''false''))))) = []
   \<and> stdout (fst (run ex_env (ex_raw ''item.json'' ''3'' (Some ''false''))))
       = [Line ''Batch creating 3 items using template item.json into table items...'',
          Line ''Done.'']
   \<and> snd (run ex_env (ex_raw ''item.json'' ''3'' (Some ''false''))) = 0"
proof -
  have g: "get_args (ex_raw ''item.json'' ''3'' (Some ''false''))
           = Some (ex_args ''item.json'' ''3'' True)"
    by (simp add: get_args_def ex_raw_def ex_args_def py_bool_def)
  show ?thesis
    by (simp add: g run_def ex_run_commit_3 exit_status_def)
qed

lemma printed_items_append: "printed_items (xs @ ys) = printed_items xs @ printed_items ys"
  by (induction xs rule: printed_items.induct) simp_all

lemma printed_items_dry_lines:
  "length is = length items \<Longrightarrow> printed_items (dry_lines a is items) = items"
  by (induction a "is" items rule: dry_lines.induct) (simp_all add: progress_line_def)

lemma render_all_nth:
  "j < length is \<Longrightarrow>
     render_all E t ku kc is ! j = render_item E t (ku + j) (kc + j) (is ! j)"
proof (induction "is" arbitrary: ku kc j)
  case Nil
  then show ?case by simp
next
  case (Cons i "is")
  then show ?case by (cases j) simp_all
qed

lemma rendered_items:
  assumes "render_all E t ku kc [1..n] = map Inr items"
  shows "length items = nat n"
    and "j < nat n \<Longrightarrow> render_item E t (ku + j) (kc + j) (int j + 1) = Inr (items ! j)"
proof -
  from assms have "length (render_all E t ku kc [1..n]) = length items" by simp
  then show len: "length items = nat n" by (simp add: length_render_all)
  assume j: "j < nat n"
  then have "render_all E t ku kc [1..n] ! j = render_item E t (ku + j) (kc + j) ([1..n] ! j)"
    by (intro render_all_nth) simp
  moreover from j have "[1..n] ! j = 1 + int j" by (intro nth_upto) linarith
  ultimately show "render_item E t (ku + j) (kc + j) (int j + 1) = Inr (items ! j)"
    using assms j len by (simp add: add.commute)
qed

lemma ex_render_build: "render_item ex_env ''$BUILD'' 0 0 1 = Inr (JInt 1)"
proof -
  have s: "substitute (template_vars (uuid4 ex_env 0) 1793750400 1) ''$BUILD'' = Inr ''1''"
    by (simp add: template_eval)
  have j: "py_json_loads ''1'' = Inr (JInt 1)"
    by (simp add: json_eval)
  show ?thesis
    using s j by (simp add: render_item_def ex_env_eval ex_timestamp)
qed

subsection \<open>The items of a dry run\<close>

text \<open>
  Claim C4, as stated, at the template \<open>$BUILD\<close> and the count 1: the substituted text
  \<open>1\<close> is well-formed JSON, the dry run prints one item, and that item is the integer 1,
  which is not a JSON object.
\<close>

theorem dry_run_item_not_object_counterexample:
  "printed_items (stdout (fst (run ex_env (ex_raw ''build.json'' ''1'' None)))) = [JInt 1]
   \<and> snd (run ex_env (ex_raw ''build.json'' ''1'' None)) = 0
   \<and> \<not> is_object (JInt 1)"
proof -
  let ?a = "ex_args ''build.json'' ''1'' False"
  have g: "get_args (ex_raw ''build.json'' ''1'' None) = Some ?a"
    by (simp add: get_args_def ex_raw_def ex_args_def)
  have "main ex_env ?a initial_world =
      (initial_world\<lparr>stdout := stdout initial_world @ header_line ?a # dry_lines ?a [1..1] [JInt 1]
             @ [done_line ?a],
         uuid_calls := uuid_calls initial_world + nat 1,
         clock_calls := clock_calls initial_world + nat 1,
         batch_log := batch_log initial_world @ [Entered, Exited]\<rparr>, None)"
  proof (rule main_dry_ok)
    show "\<not> args_commit ?a" by (simp add: ex_args_def)
    show "read_file ex_env (args_file ?a) = Inr ''$BUILD''"
      by (simp add: ex_env_def ex_files_def ex_args_def)
    show "py_int (int_max_str_digits ex_env) (args_number ?a) = Inr 1"
      by (simp add: ex_env_def ex_args_def ex_py_int)
    show "render_all ex_env ''$BUILD'' (uuid_calls initial_world) (clock_calls initial_world) [1..1]
          = map Inr [JInt 1]"
      using ex_render_build by (simp add: initial_world_def)
    show "exit_raises ex_env (batch_log initial_world @ [Entered]) = None"
      by (simp add: ex_env_def)
  qed
  then show ?thesis
    by (simp add: g run_def exit_status_def initial_world_def header_line_def done_line_def)
qed

text \<open>
  Claim C4, amended. For every count N of at least 1, when every substituted text decodes
  (and the file is read, the count parses and closing the empty session does not raise), a
  dry run prints exactly N items; the j-th of them is the value that \<open>json.loads\<close> returned
  for the text substituted in the j-th iteration: a JSON value, not necessarily an object.
\<close>

theorem dry_run_prints_n_decoded_items:
  assumes "get_args r = Some a"
    and "opt_commit r = None \<or> opt_commit r = Some []"
    and "read_file E (args_file a) = Inr t"
    and "py_int (int_max_str_digits E) (args_number a) = Inr n"
    and "1 \<le> n"
    and "render_all E t 0 0 [1..n] = map Inr items"
    and "exit_raises E [Entered] = None"
  shows "printed_items (stdout (fst (run E r))) = items
       \<and> length items = nat n
       \<and> (\<forall>j < nat n. render_item E t j j (int j + 1) = Inr (items ! j))
       \<and> batch_log (fst (run E r)) = [Entered, Exited]
       \<and> snd (run E r) = 0"
proof -
  from assms(1,2) have nc: "\<not> args_commit a"
    by (auto simp: get_args_def py_bool_def split: option.splits)
  have m: "main E a initial_world =
      (initial_world\<lparr>stdout := stdout initial_world @ header_line a # dry_lines a [1..n] items
             @ [done_line a],
         uuid_calls := uuid_calls initial_world + nat n,
         clock_calls := clock_calls initial_world + nat n,
         batch_log := batch_log initial_world @ [Entered, Exited]\<rparr>, None)"
    using nc assms(3,4) assms(6,7)
    by (intro main_dry_ok) (simp_all add: initial_world_def)
  have len: "length items = nat n"
    using assms(6) by (rule rendered_items(1))
  have nth: "\<forall>j < nat n. render_item E t j j (int j + 1) = Inr (items ! j)"
    using rendered_items(2) [OF assms(6)] by simp
  have "printed_items (header_line a # dry_lines a [1..n] items @ [done_line a]) = items"
    using len by (simp add: header_line_def done_line_def printed_items_append
        printed_items_dry_lines)
  with m len nth show ?thesis
    using assms(1) by (simp add: run_def exit_status_def initial_world_def)
qed

theorem dry_run_prints_n_decoded_items_witness:
  "printed_items (stdout (fst (run ex_env (ex_raw ''item.json'' ''3'' None))))
     = [ex_item 0 1, ex_item 1 2, ex_item 2 3]
   \<and> batch_log (fst (run ex_env (ex_raw ''item.json'' ''3'' None))) = [Entered, Exited]
   \<and> snd (run ex_env (ex_raw ''item.json'' ''3'' None)) = 0"
proof -
  let ?r = "ex_raw ''item.json'' ''3'' None"
  let ?a = "ex_args ''item.json'' ''3'' False"
  have g: "get_args ?r = Some ?a"
    by (simp add: get_args_def ex_raw_def ex_args_def)
  have o: "opt_commit ?r = None \<or> opt_commit ?r = Some []"
    by (simp add: ex_raw_def)
  have f: "read_file ex_env (args_file ?a) = Inr ex_template"
    by (simp add: ex_env_def ex_files_def ex_args_def)
  have n: "py_int (int_max_str_digits ex_env) (args_number ?a) = Inr 3"
    by (simp add: ex_env_def ex_args_def ex_py_int)
  have x: "exit_raises ex_env [Entered] = None"
    by (simp add: ex_env_def)
  from dry_run_prints_n_decoded_items [OF g o f n _ ex_render_all_3 x]
  show ?thesis by simp
qed

subsection \<open>An error raised by the batch writer\<close>

text \<open>
  Claim C6. In commit mode, when the first k - 1 submissions return and the k-th call of
  \<open>put_item\<close> raises (k is at most the count, and the first k items render), the run ends
  with an exception, so with a status that is not zero. Exactly k identifiers were
  drawn and k readings of the clock taken, so no item after the k-th was rendered; the log
  of the batch writer is the k - 1 accepted items in order, the rejected k-th, and the
  exit of the session: nothing after the k-th was submitted and nothing that had been
  accepted was taken back.
\<close>

theorem put_item_error_ends_run:
  assumes "args_commit a"
    and "read_file E (args_file a) = Inr t"
    and "py_int (int_max_str_digits E) (args_number a) = Inr n"
    and "int (length pre) + 1 \<le> n"
    and "render_all E t (uuid_calls w) (clock_calls w) [1..int (length pre) + 1]
         = map Inr (pre @ [v])"
    and "\<forall>j < length pre.
           put_item_raises E (batch_log w @ Entered # map Submitted (take j pre)) (pre ! j) = None"
    and "put_item_raises E (batch_log w @ Entered # map Submitted pre) v = Some e"
  shows "batch_log (fst (main E a w))
           = batch_log w @ Entered # map Submitted pre @ [Rejected v, Exited]
       \<and> uuid_calls (fst (main E a w)) = uuid_calls w + length pre + 1
       \<and> clock_calls (fst (main E a w)) = clock_calls w + length pre + 1
       \<and> snd (main E a w)
           = Some (case exit_raises E (batch_log w @ Entered # map Submitted pre @ [Rejected v]) of
                     None \<Rightarrow> e | Some e' \<Rightarrow> e')
       \<and> exit_status (snd (main E a w)) = 1"
proof -
  let ?k = "int (length pre) + 1"
  let ?w2 = "(print (header_line a) w)\<lparr>batch_log := batch_log w @ [Entered]\<rparr>"
  have split: "[1..n] = [1..int (length pre)] @ ?k # [?k + 1..n]"
  proof -
    have "[1..n] = [1..int (length pre)] @ [?k..n]"
    proof (cases "pre = []")
      case True
      then show ?thesis by simp
    next
      case False
      then have "1 \<le> int (length pre)" by (cases pre) simp_all
      then show ?thesis
        using assms(4) upto_split2 [of 1 "int (length pre)" n] by simp
    qed
    moreover have "[?k..n] = ?k # [?k + 1..n]"
      using assms(4) by (simp add: upto_rec1)
    ultimately show ?thesis by simp
  qed
  have last: "[1..?k] = [1..int (length pre)] @ [?k]"
    using upto_rec2 [of 1 ?k] by simp
  have r: "render_all E t (uuid_calls ?w2) (clock_calls ?w2) ([1..int (length pre)] @ [?k])
           = map Inr (pre @ [v])"
    using assms(5) last by (simp add: print_def)
  have p: "\<forall>j < length pre.
      put_item_raises E (batch_log ?w2 @ map Submitted (take j pre)) (pre ! j) = None"
    using assms(6) by simp
  have q: "put_item_raises E (batch_log ?w2 @ map Submitted pre) v = Some e"
    using assms(7) by simp
  have l: "loop E a t [1..n] ?w2 =
      (?w2\<lparr>stdout := stdout ?w2 @ progress_lines a ([1..int (length pre)] @ [?k]),
         uuid_calls := uuid_calls ?w2 + length [1..int (length pre)] + 1,
         clock_calls := clock_calls ?w2 + length [1..int (length pre)] + 1,
         batch_log := batch_log ?w2 @ map Submitted pre @ [Rejected v]\<rparr>, Some e)"
    unfolding split using assms(1) r p q by (rule loop_commit_reject)
  show ?thesis
    using assms(2,3) l
    by (simp add: main_def Let_def print_def header_line_def exit_status_def
        split: option.splits)
qed

theorem put_item_error_ends_run_witness:
  "batch_log (fst (main (ex_env_rejecting 2) (ex_args ''item.json'' ''3'' True) initial_world))
     = [Entered, Submitted (ex_item 0 1), Rejected (ex_item 1 2), Exited]
   \<and> uuid_calls (fst (main (ex_env_rejecting 2) (ex_args ''item.json'' ''3'' True) initial_world))
     = 2
   \<and> snd (main (ex_env_rejecting 2) (ex_args ''item.json'' ''3'' True) initial_world)
     = Some (ClientError ''ProvisionedThroughputExceededException'')"
proof -
  let ?E = "ex_env_rejecting 2"
  let ?a = "ex_args ''item.json'' ''3'' True"
  have c: "args_commit ?a" by (simp add: ex_args_def)
  have f: "read_file ?E (args_file ?a) = Inr ex_template"
    by (simp add: ex_env_rejecting_def ex_env_def ex_files_def ex_args_def)
  have n: "py_int (int_max_str_digits ?E) (args_number ?a) = Inr 3"
    by (simp add: ex_env_rejecting_def ex_env_def ex_args_def ex_py_int)
  have k: "int (length [ex_item 0 1]) + 1 \<le> 3" by simp
  have fields: "uuid4 ?E = uuid4 ex_env" "utc_now_us ?E = utc_now_us ex_env"
    "json_loads ?E = json_loads ex_env"
    by (simp_all add: ex_env_rejecting_def)
  have same: "\<And>t ku kc i. render_item ?E t ku kc i = render_item ex_env t ku kc i"
    unfolding render_item_def fields by (rule refl)
  have "[1..2] = [1, 2 :: int]" by code_simp
  then have r: "render_all ?E ex_template (uuid_calls initial_world) (clock_calls initial_world)
             [1..int (length [ex_item 0 1]) + 1]
           = map Inr ([ex_item 0 1] @ [ex_item 1 2])"
    using ex_render_1 ex_render_2 by (simp add: same initial_world_def)
  have p: "\<forall>j < length [ex_item 0 1].
      put_item_raises ?E (batch_log initial_world @ Entered # map Submitted (take j [ex_item 0 1]))
        ([ex_item 0 1] ! j) = None"
    by (simp add: ex_env_rejecting_def initial_world_def)
  have q: "put_item_raises ?E (batch_log initial_world @ Entered # map Submitted [ex_item 0 1])
             (ex_item 1 2) = Some (ClientError ''ProvisionedThroughputExceededException'')"
    by (simp add: ex_env_rejecting_def initial_world_def)
  from put_item_error_ends_run [OF c f n k r p q]
  show ?thesis
    by (simp add: initial_world_def ex_env_rejecting_def ex_env_def)
qed

lemma render_item_InrD:
  assumes "render_item E t ku kc i = Inr v"
  shows "\<exists>now text. get_future_timestamp_seconds (utc_now_us E kc) 0 = Inr now
           \<and> substitute (template_vars (uuid4 E ku) now i) t = Inr text
           \<and> json_loads E text = Inr v"
  using assms by (auto simp: render_item_def split: sum.splits)

lemma iteration_ok:
  assumes "iteration E a t i w = (w', None)"
  shows "\<exists>v. render_item E t (uuid_calls w) (clock_calls w) i = Inr v
           \<and> uuid_calls w' = Suc (uuid_calls w) \<and> clock_calls w' = Suc (clock_calls w)
           \<and> (if args_commit a
               then put_item_raises E (batch_log w) v = None
                    \<and> batch_log w' = batch_log w @ [Submitted v]
               else batch_log w' = batch_log w)"
  using assms
  by (auto simp: iteration_def Let_def print_def put_item_def
      split: sum.splits if_splits option.splits)

lemma loop_ok_items:
  assumes "loop E a t is w = (w', None)"
  shows "\<exists>items. render_all E t (uuid_calls w) (clock_calls w) is = map Inr items
           \<and> (args_commit a \<longrightarrow>
                (\<forall>k < length items.
                   put_item_raises E (batch_log w @ map Submitted (take k items)) (items ! k)
                   = None))"
  using assms
proof (induction "is" arbitrary: w)
  case Nil
  then show ?case by simp
next
  case (Cons i "is")
  obtain w1 r1 where it: "iteration E a t i w = (w1, r1)" by (cases "iteration E a t i w")
  with Cons.prems have r1: "r1 = None" and l: "loop E a t is w1 = (w', None)"
    by (auto split: option.splits)
  from iteration_ok [OF it [unfolded r1]] obtain v
    where v: "render_item E t (uuid_calls w) (clock_calls w) i = Inr v"
      and cu: "uuid_calls w1 = Suc (uuid_calls w)" and cc: "clock_calls w1 = Suc (clock_calls w)"
      and b: "if args_commit a
              then put_item_raises E (batch_log w) v = None
                   \<and> batch_log w1 = batch_log w @ [Submitted v]
              else batch_log w1 = batch_log w"
    by blast
  from Cons.IH [OF l] obtain items
    where ra: "render_all E t (uuid_calls w1) (clock_calls w1) is = map Inr items"
      and pa: "args_commit a \<longrightarrow>
                (\<forall>k < length items.
                   put_item_raises E (batch_log w1 @ map Submitted (take k items)) (items ! k)
                   = None)"
    by blast
  have "render_all E t (uuid_calls w) (clock_calls w) (i # is) = map Inr (v # items)"
    using v ra cu cc by simp
  moreover have "args_commit a \<longrightarrow>
      (\<forall>k < length (v # items).
         put_item_raises E (batch_log w @ map Submitted (take k (v # items))) ((v # items) ! k)
         = None)"
  proof (intro impI allI)
    fix k assume ca: "args_commit a" and k: "k < length (v # items)"
    show "put_item_raises E (batch_log w @ map Submitted (take k (v # items))) ((v # items) ! k)
          = None"
    proof (cases k)
      case 0
      with b ca show ?thesis by simp
    next
      case (Suc k')
      with k pa ca b show ?thesis by simp
    qed
  qed
  ultimately show ?case by blast
qed

subsection \<open>The sequence counter\<close>

text \<open>
  Claim C3. For every count N, on a run of \<open>main\<close> that completes, the run has exactly
  \<open>max N 0\<close> items, the ones printed by a dry run or handed to \<open>put_item\<close> by a commit run,
  in that order; the j-th of them (counting from 1) is decoded from the template
  substituted with a dictionary whose \<open>BUILD\<close> entry is the integer j. So the values of
  \<open>BUILD\<close> over the run are 1, 2, ..., N, in order, each once.
\<close>

theorem build_values_are_one_to_n:
  assumes "read_file E (args_file a) = Inr t"
    and "py_int (int_max_str_digits E) (args_number a) = Inr n"
    and "snd (main E a w) = None"
  shows "\<exists>items. length items = nat n
       \<and> (\<forall>j < nat n. \<exists>u now text.
             template_vars u now (int j + 1) ''BUILD'' = Some (PInt (int j + 1))
             \<and> substitute (template_vars u now (int j + 1)) t = Inr text
             \<and> json_loads E text = Inr (items ! j))
       \<and> (if args_commit a
           then batch_log (fst (main E a w)) = batch_log w @ Entered # map Submitted items @ [Exited]
           else printed_items (stdout (fst (main E a w))) = printed_items (stdout w) @ items)"
proof -
  let ?w2 = "(print (header_line a) w)\<lparr>batch_log := batch_log w @ [Entered]\<rparr>"
  obtain w3 r3 where l: "loop E a t [1..n] ?w2 = (w3, r3)" by (cases "loop E a t [1..n] ?w2")
  from assms l have r3: "r3 = None" and x: "exit_raises E (batch_log w3) = None"
    by (auto simp: main_def Let_def print_def header_line_def split: option.splits)
  from loop_ok_items [OF l [unfolded r3]] obtain items
    where ra: "render_all E t (uuid_calls w) (clock_calls w) [1..n] = map Inr items"
      and pa: "args_commit a \<longrightarrow>
                (\<forall>k < length items.
                   put_item_raises E (batch_log w @ Entered # map Submitted (take k items))
                     (items ! k) = None)"
    by (auto simp: print_def)
  have len: "length items = nat n" using ra by (rule rendered_items(1))
  have nth: "\<forall>j < nat n. \<exists>u now text.
             template_vars u now (int j + 1) ''BUILD'' = Some (PInt (int j + 1))
             \<and> substitute (template_vars u now (int j + 1)) t = Inr text
             \<and> json_loads E text = Inr (items ! j)"
  proof (intro allI impI)
    fix j assume "j < nat n"
    from rendered_items(2) [OF ra this] render_item_InrD
    obtain ts body where
      "substitute (template_vars (uuid4 E (uuid_calls w + j)) ts (int j + 1)) t = Inr body"
      "json_loads E body = Inr (items ! j)"
      by blast
    moreover have "template_vars (uuid4 E (uuid_calls w + j)) ts (int j + 1) ''BUILD''
                   = Some (PInt (int j + 1))"
      by (simp add: template_vars_def)
    ultimately show "\<exists>u now text.
             template_vars u now (int j + 1) ''BUILD'' = Some (PInt (int j + 1))
             \<and> substitute (template_vars u now (int j + 1)) t = Inr text
             \<and> json_loads E text = Inr (items ! j)"
      by blast
  qed
  have fin: "if args_commit a
           then batch_log (fst (main E a w)) = batch_log w @ Entered # map Submitted items @ [Exited]
           else printed_items (stdout (fst (main E a w))) = printed_items (stdout w) @ items"
  proof (cases "args_commit a")
    case True
    with pa have p: "\<forall>k < length items.
        put_item_raises E (batch_log w @ Entered # map Submitted (take k items)) (items ! k)
        = None"
      by simp
    have "loop E a t [1..n] ?w2 =
      (?w2\<lparr>stdout := stdout ?w2 @ progress_lines a [1..n],
         uuid_calls := uuid_calls ?w2 + length [1..n],
         clock_calls := clock_calls ?w2 + length [1..n],
         batch_log := batch_log ?w2 @ map Submitted items\<rparr>, None)"
      using True ra p by (intro loop_commit_ok) (simp_all add: print_def)
    with l have "batch_log w3 = batch_log w @ Entered # map Submitted items"
      by (auto simp: print_def)
    with x have "exit_raises E (batch_log w @ Entered # map Submitted items) = None"
      by simp
    from main_commit_ok [OF True assms(1,2) ra p this] True show ?thesis by simp
  next
    case False
    have "loop E a t [1..n] ?w2 =
      (?w2\<lparr>stdout := stdout ?w2 @ dry_lines a [1..n] items,
         uuid_calls := uuid_calls ?w2 + length [1..n],
         clock_calls := clock_calls ?w2 + length [1..n]\<rparr>, None)"
      using False ra by (intro loop_dry_ok) (simp_all add: print_def)
    with l have "batch_log w3 = batch_log w @ [Entered]"
      by (auto simp: print_def)
    with x have "exit_raises E (batch_log w @ [Entered]) = None"
      by simp
    from main_dry_ok [OF False assms(1,2) ra this] False len show ?thesis
      by (simp add: printed_items_append printed_items_dry_lines header_line_def done_line_def)
  qed
  from len nth fin show ?thesis by blast
qed

theorem build_values_are_one_to_n_witness:
  "snd (main ex_env (ex_args ''item.json'' ''3'' True) initial_world) = None
   \<and> (\<exists>items. length items = 3
        \<and> (\<forall>j < 3. \<exists>u now text.
              template_vars u now (int j + 1) ''BUILD'' = Some (PInt (int j + 1))
              \<and> substitute (template_vars u now (int j + 1)) ex_template = Inr text
              \<and> py_json_loads text = Inr (items ! j))
        \<and> batch_log (fst (main ex_env (ex_args ''item.json'' ''3'' True) initial_world))
            = Entered # map Submitted items @ [Exited])"
proof -
  let ?a = "ex_args ''item.json'' ''3'' True"
  have f: "read_file ex_env (args_file ?a) = Inr ex_template"
    by (simp add: ex_env_def ex_files_def ex_args_def)
  have n: "py_int (int_max_str_digits ex_env) (args_number ?a) = Inr 3"
    by (simp add: ex_env_def ex_args_def ex_py_int)
  have s: "snd (main ex_env ?a initial_world) = None"
    by (simp add: ex_run_commit_3)
  have c: "args_commit ?a" by (simp add: ex_args_def)
  from build_values_are_one_to_n [OF f n s]
  show ?thesis
    using s c by (simp add: ex_env_eval initial_world_def)
qed

lemma run_commit_ok:
  assumes "get_args r = Some a"
    and "args_commit a"
    and "read_file E (args_file a) = Inr t"
    and "py_int (int_max_str_digits E) (args_number a) = Inr n"
    and "render_all E t 0 0 [1..n] = map Inr items"
    and "\<forall>k < length items.
           put_item_raises E (Entered # map Submitted (take k items)) (items ! k) = None"
    and "exit_raises E (Entered # map Submitted items) = None"
  shows "run E r =
      (\<lparr>stdout = header_line a # progress_lines a [1..n] @ [done_line a],
        uuid_calls = nat n, clock_calls = nat n,
        batch_log = Entered # map Submitted items @ [Exited]\<rparr>, 0)"
proof -
  have "main E a initial_world =
      (initial_world\<lparr>stdout := stdout initial_world @ header_line a # progress_lines a [1..n]
             @ [done_line a],
         uuid_calls := uuid_calls initial_world + nat n,
         clock_calls := clock_calls initial_world + nat n,
         batch_log := batch_log initial_world @ Entered # map Submitted items @ [Exited]\<rparr>, None)"
    using assms(2,3,4) assms(5,6,7)
    by (intro main_commit_ok) (simp_all add: initial_world_def)
  then show ?thesis
    using assms(1) by (simp add: run_def exit_status_def initial_world_def)
qed

lemma progress_segment:
  assumes "0 < a" and "b < 1000"
  shows "filter (\<lambda>i. i mod 1000 = 0) [k * 1000 + a..k * 1000 + b] = ([] :: int list)"
proof -
  have "\<forall>i \<in> set [k * 1000 + a..k * 1000 + b]. i mod 1000 \<noteq> 0"
  proof
    fix i assume "i \<in> set [k * 1000 + a..k * 1000 + b]"
    then have "k * 1000 + a \<le> i" "i \<le> k * 1000 + b" by simp_all
    then obtain d where d: "i = k * 1000 + d" "0 < d" "d < 1000"
      using assms by (intro that [of "i - k * 1000"]) simp_all
    then have "i mod 1000 = d" by simp
    with d show "i mod 1000 \<noteq> 0" by simp
  qed
  then show ?thesis by (simp add: filter_empty_conv)
qed

lemma progress_indices_2500: "filter (\<lambda>i. i mod 1000 = 0) [1..2500] = [1000, 2000 :: int]"
proof -
  have s1: "[1..2500] = [1..999] @ 1000 # [1001..2500 :: int]"
    using upto_split3 [of 1 1000 2500] by (simp del: upto_rec_numeral)
  have s2: "[1001..2500] = [1001..1999] @ 2000 # [2001..2500 :: int]"
    using upto_split3 [of 1001 2000 2500] by (simp del: upto_rec_numeral)
  have e1: "filter (\<lambda>i. i mod 1000 = 0) [1..999] = ([] :: int list)"
    using progress_segment [of 1 999 0] by (simp del: upto_rec_numeral)
  have e2: "filter (\<lambda>i. i mod 1000 = 0) [1001..1999] = ([] :: int list)"
    using progress_segment [of 1 999 1] by (simp del: upto_rec_numeral)
  have e3: "filter (\<lambda>i. i mod 1000 = 0) [2001..2500] = ([] :: int list)"
    using progress_segment [of 1 500 2] by (simp del: upto_rec_numeral)
  show ?thesis
    unfolding s1 s2 by (simp add: e1 e2 e3 del: upto_rec_numeral)
qed

lemma progress_lines_2500:
  "progress_lines a [1..2500] = [progress_line a 1000, progress_line a 2000]"
  unfolding progress_lines_def progress_indices_2500 by simp

lemma str_int_progress: "str_int 1000 = ''1000''" "str_int 2000 = ''2000''"
  by (simp_all add: str_int_def digit_char_eval)

lemma ex_py_int_2500: "py_int 4300 ''2500'' = Inr 2500"
  by code_simp

lemma ex_render_const:
  "render_item ex_env ''{\"pk\": \"$FOO\"}'' ku kc i = Inr ex_const_item"
proof -
  have s: "substitute (template_vars (uuid4 ex_env ku) 1793750400 i) ''{\"pk\": \"$FOO\"}''
           = Inr ''{\"pk\": \"BAR\"}''"
    by (simp add: template_eval)
  have j: "py_json_loads ''{\"pk\": \"BAR\"}'' = Inr ex_const_item"
    by (simp add: json_eval ex_const_item_def)
  show ?thesis
    using s j by (simp add: render_item_def ex_env_eval ex_timestamp)
qed

lemma ex_render_all_const:
  "render_all ex_env ''{\"pk\": \"$FOO\"}'' ku kc is = map Inr (ex_const_items (length is))"
  by (induction "is" arbitrary: ku kc) (simp_all add: ex_render_const ex_const_items_def)

lemma ex_run_commit_2500:
  assumes "c \<noteq> []"
  shows "run ex_env (ex_raw ''const.json'' ''2500'' (Some c)) =
     (\<lparr>stdout = [Line ''Batch creating 2500 items using template const.json into table items...'',
                 Line ''Batch putting item 1000'', Line ''Batch putting item 2000'',
                 Line ''Done.''],
       uuid_calls = 2500, clock_calls = 2500,
       batch_log = Entered # map Submitted (ex_const_items 2500) @ [Exited]\<rparr>, 0)"
proof -
  let ?r = "ex_raw ''const.json'' ''2500'' (Some c)"
  let ?a = "ex_args ''const.json'' ''2500'' True"
  have g: "get_args ?r = Some ?a"
    using assms by (simp add: get_args_def ex_raw_def ex_args_def py_bool_def)
  have ca: "args_commit ?a" by (simp add: ex_args_def)
  have f: "read_file ex_env (args_file ?a) = Inr ''{\"pk\": \"$FOO\"}''"
    by (simp add: ex_env_def ex_files_def ex_args_def)
  have n: "py_int (int_max_str_digits ex_env) (args_number ?a) = Inr 2500"
    by (simp add: ex_env_def ex_args_def ex_py_int_2500)
  have ra: "render_all ex_env ''{\"pk\": \"$FOO\"}'' 0 0 [1..2500] = map Inr (ex_const_items 2500)"
    unfolding ex_render_all_const by (simp del: upto_rec_numeral)
  have p: "\<forall>k < length (ex_const_items 2500).
      put_item_raises ex_env (Entered # map Submitted (take k (ex_const_items 2500)))
        (ex_const_items 2500 ! k) = None"
    by (simp add: ex_env_def)
  have x: "exit_raises ex_env (Entered # map Submitted (ex_const_items 2500)) = None"
    by (simp add: ex_env_def)
  have "run ex_env ?r =
      (\<lparr>stdout = header_line ?a # progress_lines ?a [1..2500] @ [done_line ?a],
        uuid_calls = nat 2500, clock_calls = nat 2500,
        batch_log = Entered # map Submitted (ex_const_items 2500) @ [Exited]\<rparr>, 0)"
    using g ca f n ra p x by (rule run_commit_ok)
  then show ?thesis
    unfolding progress_lines_2500
    by (simp add: progress_line_def str_int_progress header_line_def done_line_def
        msg_prefix_def ex_args_def)
qed

subsection \<open>A commit run of 2500 items\<close>

text \<open>
  Claim C2, as stated, at a commit run of 2500 items over a template that renders: the
  console output is not only the two progress lines and the final line. The header line
  \<open>Batch creating 2500 items ...\<close> of line 52 is printed first.
\<close>

theorem commit_run_output_counterexample:
  "stdout (fst (run ex_env (ex_raw ''const.json'' ''2500'' (Some ''true''))))
     = [Line ''Batch creating 2500 items using template const.json into table items...'',
        Line ''Batch putting item 1000'', Line ''Batch putting item 2000'', Line ''Done.'']
   \<and> stdout (fst (run ex_env (ex_raw ''const.json'' ''2500'' (Some ''true''))))
     \<noteq> [Line ''Batch putting item 1000'', Line ''Batch putting item 2000'', Line ''Done.'']"
  by (simp add: ex_run_commit_2500)

text \<open>
  Claim C2, amended. In commit mode with the count 2500, when every item renders and the
  batch writer does not raise, the console output is the header line, one progress line
  at each index divisible by 1000 (exactly two, for 1000 and 2000) and the final line,
  none with the dry-run marker; and the 2500 items are handed to \<open>put_item\<close> once each, the
  j-th being the item rendered with the index j, so in ascending order of \<open>BUILD\<close>.
\<close>

theorem commit_run_of_2500:
  assumes "get_args r = Some a"
    and "\<exists>s. opt_commit r = Some s \<and> s \<noteq> []"
    and "read_file E (args_file a) = Inr t"
    and "py_int (int_max_str_digits E) (args_number a) = Inr 2500"
    and "render_all E t 0 0 [1..2500] = map Inr items"
    and "\<forall>k < length items.
           put_item_raises E (Entered # map Submitted (take k items)) (items ! k) = None"
    and "exit_raises E (Entered # map Submitted items) = None"
  shows "stdout (fst (run E r))
           = [header_line a, progress_line a 1000, progress_line a 2000, done_line a]
       \<and> msg_prefix a = []
       \<and> batch_log (fst (run E r)) = Entered # map Submitted items @ [Exited]
       \<and> length items = 2500
       \<and> (\<forall>j < 2500. render_item E t j j (int j + 1) = Inr (items ! j))
       \<and> snd (run E r) = 0"
proof -
  from assms(1,2) have ca: "args_commit a"
    by (auto simp: get_args_def py_bool_def split: option.splits)
  have "run E r =
      (\<lparr>stdout = header_line a # progress_lines a [1..2500] @ [done_line a],
        uuid_calls = nat 2500, clock_calls = nat 2500,
        batch_log = Entered # map Submitted items @ [Exited]\<rparr>, 0)"
    using assms(1) ca assms(3,4,5,6,7) by (rule run_commit_ok)
  then have R: "run E r =
      (\<lparr>stdout = [header_line a, progress_line a 1000, progress_line a 2000, done_line a],
        uuid_calls = nat 2500, clock_calls = nat 2500,
        batch_log = Entered # map Submitted items @ [Exited]\<rparr>, 0)"
    unfolding progress_lines_2500 by simp
  have len: "length items = 2500"
    using rendered_items(1) [OF assms(5)] by simp
  have nth: "\<forall>j < 2500. render_item E t j j (int j + 1) = Inr (items ! j)"
    using rendered_items(2) [OF assms(5)] by simp
  from R len nth ca show ?thesis
    by (simp add: msg_prefix_def)
qed

theorem commit_run_of_2500_witness:
  "stdout (fst (run ex_env (ex_raw ''const.json'' ''2500'' (Some ''yes''))))
     = [Line ''Batch creating 2500 items using template const.json into table items...'',
        Line ''Batch putting item 1000'', Line ''Batch putting item 2000'', Line ''Done.'']
   \<and> batch_log (fst (run ex_env (ex_raw ''const.json'' ''2500'' (Some ''yes''))))
     = Entered # map Submitted (ex_const_items 2500) @ [Exited]
   \<and> length (ex_const_items 2500) = 2500
   \<and> snd (run ex_env (ex_raw ''const.json'' ''2500'' (Some ''yes''))) = 0"
proof -
  let ?r = "ex_raw ''const.json'' ''2500'' (Some ''yes'')"
  let ?a = "ex_args ''const.json'' ''2500'' True"
  have g: "get_args ?r = Some ?a"
    by (simp add: get_args_def ex_raw_def ex_args_def py_bool_def)
  have o: "\<exists>s. opt_commit ?r = Some s \<and> s \<noteq> []"
    by (simp add: ex_raw_def)
  have f: "read_file ex_env (args_file ?a) = Inr ''{\"pk\": \"$FOO\"}''"
    by (simp add: ex_env_def ex_files_def ex_args_def)
  have n: "py_int (int_max_str_digits ex_env) (args_number ?a) = Inr 2500"
    by (simp add: ex_env_def ex_args_def ex_py_int_2500)
  have ra: "render_all ex_env ''{\"pk\": \"$FOO\"}'' 0 0 [1..2500] = map Inr (ex_const_items 2500)"
    unfolding ex_render_all_const by (simp del: upto_rec_numeral)
  have p: "\<forall>k < length (ex_const_items 2500).
      put_item_raises ex_env (Entered # map Submitted (take k (ex_const_items 2500)))
        (ex_const_items 2500 ! k) = None"
    by (simp add: ex_env_def)
  have x: "exit_raises ex_env (Entered # map Submitted (ex_const_items 2500)) = None"
    by (simp add: ex_env_def)
  from commit_run_of_2500 [OF g o f n ra p x]
  show ?thesis
    by (simp add: progress_line_def str_int_progress header_line_def done_line_def
        msg_prefix_def ex_args_def)
qed

end
